theory Spec2Isabelle
  imports Complex_Main "HOL-Library.Word"
begin

section \<open>Order execution engine: data model\<close>

text \<open>
  The development follows \<^verbatim>\<open>src/server.ts\<close>. JavaScript numbers are IEEE 754 binary64
  values with round-to-nearest-even arithmetic (type \<open>double\<close> below). A JavaScript
  string is the list of its UTF-16 code units; the identifiers and messages that the
  program builds itself are ASCII and written as \<^typ>\<open>string\<close>. The built-in
  \<^verbatim>\<open>String.prototype.toUpperCase\<close> (the Unicode case tables) and the exponent form of
  \<^verbatim>\<open>Number.prototype.toString\<close> are not part of the repository; they are taken as
  given, in the record \<open>host\<close>. The shared mutable things of the program (the
  \<^verbatim>\<open>orders\<close> table, the \<^verbatim>\<open>orderSockets\<close> registry, the Redis set \<^verbatim>\<open>active_orders\<close>, the
  BullMQ queue, the clock) are the fields of one state record that every operation takes
  and returns. The state also carries the trace of the external effects in the order in
  which the program performs them. The ledger, Redis and the sockets are taken to be
  reachable: a rejected query is not modelled.
\<close>

subsection \<open>Numbers\<close>

text \<open>
  A double is a finite value, negative zero, an infinity or NaN; \<open>Finite 0\<close> is
  positive zero. The finite values that arithmetic produces are multiples of a power of
  two with a 53-bit significand.
\<close>

datatype double = Finite real | NegZero | PosInfinity | NegInfinity | NaN

definition pow2 :: "int \<Rightarrow> real" where
  "pow2 e = (if 0 \<le> e then 2 ^ nat e else 1 / 2 ^ nat (- e))"

text \<open>Rounding to the nearest integer, to the even one on a tie.\<close>

definition round_even :: "real \<Rightarrow> int" where
  "round_even y =
     (let f = \<lfloor>y\<rfloor>; d = y - of_int f
      in if d < 1 / 2 then f else if 1 / 2 < d then f + 1 else if even f then f else f + 1)"

text \<open>
  The binary exponent of a positive number: the \<open>e\<close> with \<open>2 ^ e \<le> x < 2 ^ (e + 1)\<close>,
  searched upwards from 0 or downwards from -1, and kept between -1022 (below it the
  doubles are subnormal and share the spacing of exponent -1022) and 1024 (from there on
  every number overflows).
\<close>

function exp_up :: "real \<Rightarrow> int \<Rightarrow> int" where
  "exp_up x e = (if 1024 \<le> e \<or> x < pow2 (e + 1) then e else exp_up x (e + 1))"
  by pat_completeness auto
termination
  by (relation "measure (\<lambda>(x, e). nat (1024 - e))") auto

function exp_down :: "real \<Rightarrow> int \<Rightarrow> int" where
  "exp_down x e = (if e \<le> - 1022 \<or> pow2 e \<le> x then e else exp_down x (e - 1))"
  by pat_completeness auto
termination
  by (relation "measure (\<lambda>(x, e). nat (e + 1022))") auto

definition exponent :: "real \<Rightarrow> int" where
  "exponent x = (if 1 \<le> \<bar>x\<bar> then exp_up \<bar>x\<bar> 0 else exp_down \<bar>x\<bar> (- 1))"

text \<open>
  The double nearest to a real number (ties to the even significand): the number is
  rounded to a multiple of the spacing \<open>2 ^ (e - 52)\<close> of its binade. A result of
  magnitude \<open>2 ^ 1024\<close> or more is an infinity; a non-zero number that rounds to zero keeps
  its sign.
\<close>

definition fl :: "real \<Rightarrow> double" where
  "fl x =
     (if x = 0 then Finite 0
      else
        (let q = pow2 (exponent x - 52);
             y = of_int (round_even (x / q)) * q
         in if pow2 1024 \<le> \<bar>y\<bar> then (if 0 < x then PosInfinity else NegInfinity)
            else if y = 0 then (if 0 < x then Finite 0 else NegZero)
            else Finite y))"

text \<open>A decimal literal of the source denotes the double nearest to it.\<close>

definition lit :: "real \<Rightarrow> double" where
  "lit x = fl x"

definition val :: "double \<Rightarrow> real" where
  "val a = (case a of Finite x \<Rightarrow> x | _ \<Rightarrow> 0)"

definition is_inf :: "double \<Rightarrow> bool" where
  "is_inf a = (a = PosInfinity \<or> a = NegInfinity)"

definition is_zero :: "double \<Rightarrow> bool" where
  "is_zero a = (a = Finite 0 \<or> a = NegZero)"

text \<open>The sign bit.\<close>

definition negative :: "double \<Rightarrow> bool" where
  "negative a =
     (case a of Finite x \<Rightarrow> x < 0 | NegZero \<Rightarrow> True | NegInfinity \<Rightarrow> True | _ \<Rightarrow> False)"

definition zero_of :: "bool \<Rightarrow> double" where
  "zero_of neg = (if neg then NegZero else Finite 0)"

definition inf_of :: "bool \<Rightarrow> double" where
  "inf_of neg = (if neg then NegInfinity else PosInfinity)"

definition dneg :: "double \<Rightarrow> double" where
  "dneg a =
     (case a of
        Finite x \<Rightarrow> if x = 0 then NegZero else Finite (- x)
      | NegZero \<Rightarrow> Finite 0
      | PosInfinity \<Rightarrow> NegInfinity
      | NegInfinity \<Rightarrow> PosInfinity
      | NaN \<Rightarrow> NaN)"

text \<open>
  \<^verbatim>\<open>a + b\<close>: opposite infinities give NaN; an exact sum of zero is positive zero unless
  both operands are negative zero.
\<close>

definition dadd :: "double \<Rightarrow> double \<Rightarrow> double" where
  "dadd a b =
     (if a = NaN \<or> b = NaN then NaN
      else if is_inf a \<or> is_inf b
      then (if is_inf a \<and> is_inf b \<and> a \<noteq> b then NaN else if is_inf a then a else b)
      else if val a + val b = 0
      then (if a = NegZero \<and> b = NegZero then NegZero else Finite 0)
      else fl (val a + val b))"

definition dsub :: "double \<Rightarrow> double \<Rightarrow> double" where
  "dsub a b = dadd a (dneg b)"

text \<open>\<^verbatim>\<open>a * b\<close>: an infinity times a zero is NaN; the sign is the exclusive or of the signs.\<close>

definition dmul :: "double \<Rightarrow> double \<Rightarrow> double" where
  "dmul a b =
     (if a = NaN \<or> b = NaN then NaN
      else if is_inf a \<or> is_inf b
      then (if is_zero a \<or> is_zero b then NaN else inf_of (negative a \<noteq> negative b))
      else if is_zero a \<or> is_zero b then zero_of (negative a \<noteq> negative b)
      else fl (val a * val b))"

text \<open>
  \<^verbatim>\<open>a / b\<close>: zero by zero and infinity by infinity are NaN; a non-zero number by zero is
  an infinity.
\<close>

definition ddiv :: "double \<Rightarrow> double \<Rightarrow> double" where
  "ddiv a b =
     (if a = NaN \<or> b = NaN then NaN
      else if is_inf a then (if is_inf b then NaN else inf_of (negative a \<noteq> negative b))
      else if is_inf b then zero_of (negative a \<noteq> negative b)
      else if is_zero b then (if is_zero a then NaN else inf_of (negative a \<noteq> negative b))
      else if is_zero a then zero_of (negative a \<noteq> negative b)
      else fl (val a / val b))"

text \<open>\<^verbatim>\<open>Math.abs\<close>.\<close>

definition dabs :: "double \<Rightarrow> double" where
  "dabs a =
     (case a of
        Finite x \<Rightarrow> Finite \<bar>x\<bar>
      | NegZero \<Rightarrow> Finite 0
      | PosInfinity \<Rightarrow> PosInfinity
      | NegInfinity \<Rightarrow> PosInfinity
      | NaN \<Rightarrow> NaN)"

text \<open>\<^verbatim>\<open>a > b\<close>: false when an operand is NaN; the two zeros are equal.\<close>

definition dgt :: "double \<Rightarrow> double \<Rightarrow> bool" where
  "dgt a b =
     (if a = NaN \<or> b = NaN then False
      else if a = PosInfinity then b \<noteq> PosInfinity
      else if b = PosInfinity then False
      else if b = NegInfinity then a \<noteq> NegInfinity
      else if a = NegInfinity then False
      else val a > val b)"

text \<open>The numbers that \<^verbatim>\<open>||\<close> and \<^verbatim>\<open>!\<close> treat as false.\<close>

definition falsy :: "double \<Rightarrow> bool" where
  "falsy a = (is_zero a \<or> a = NaN)"

subsection \<open>Strings and built-ins\<close>

type_synonym js_string = "nat list"

text \<open>The code units of an ASCII string literal.\<close>

definition ascii :: "string \<Rightarrow> js_string" where
  "ascii s = map of_char s"

text \<open>
  The two built-ins that the program calls and whose tables lie outside the repository:
  \<^verbatim>\<open>String.prototype.toUpperCase\<close>, and \<^verbatim>\<open>Number.prototype.toString\<close> as \<^verbatim>\<open>toFixed\<close> uses it
  for a number of magnitude \<open>10 ^ 21\<close> or more.
\<close>

record host =
  toUpperCase :: "js_string \<Rightarrow> js_string"
  numberToString :: "real \<Rightarrow> string"

subsection \<open>Records of the program\<close>

datatype OrderStatus = pending | routing | building | submitted | confirmed | failed

datatype DexName = raydium | meteora

record OrderJobData =
  orderId :: string
  tokenIn :: js_string
  tokenOut :: js_string
  amount :: real
  otype :: string

record DexQuote =
  price :: double
  fee :: double

record SwapResult =
  txHash :: string
  executedPrice :: double

text \<open>The optional argument \<^verbatim>\<open>extra\<close> of \<^verbatim>\<open>emitStatus\<close>; a missing object is four missing fields.\<close>

record extra =
  x_dex :: "DexName option"
  x_txHash :: "string option"
  x_error :: "string option"
  x_executedPrice :: "double option"

definition no_extra :: extra where
  "no_extra = \<lparr>x_dex = None, x_txHash = None, x_error = None, x_executedPrice = None\<rparr>"

text \<open>The status event sent to the sockets (before \<^verbatim>\<open>JSON.stringify\<close>).\<close>

record payload =
  ev_orderId :: string
  ev_status :: OrderStatus
  ev_dex :: "DexName option"
  ev_txHash :: "string option"
  ev_error :: "string option"
  ev_executedPrice :: "double option"
  ev_timestamp :: nat

text \<open>A row of the table \<^verbatim>\<open>orders\<close>; the primary key \<^verbatim>\<open>id\<close> is the key of the ledger map.\<close>

record order_row =
  type_col :: string
  token_in :: js_string
  token_out :: js_string
  amount_col :: real
  status :: OrderStatus
  dex :: "DexName option"
  tx_hash :: "string option"
  error :: "string option"
  executed_price :: "double option"
  created_at :: nat
  updated_at :: nat

datatype effect =
    PgInsert string order_row
  | PgUpdate string OrderStatus "DexName option" "string option" "string option" "double option"
  | WsSend nat payload
  | RedisSAdd string
  | RedisSRem string
  | QueueAdd OrderJobData

record state =
  ledger :: "string \<rightharpoonup> order_row"
  orderSockets :: "string \<rightharpoonup> nat list"
  readyState :: "nat \<Rightarrow> nat"
  active_orders :: "string set"
  queue :: "OrderJobData list"
  clock :: nat
  trace :: "effect list"

section \<open>emitStatus\<close>

text \<open>
  \<^verbatim>\<open>x || null\<close> on an optional string or number: a missing value, the empty string and
  the numbers 0, -0 and NaN all become \<^verbatim>\<open>null\<close>. Both venue names are non-empty strings.
\<close>

definition str_or_null :: "string option \<Rightarrow> string option" where
  "str_or_null x = (case x of None \<Rightarrow> None | Some s \<Rightarrow> if s = [] then None else Some s)"

definition num_or_null :: "double option \<Rightarrow> double option" where
  "num_or_null x = (case x of None \<Rightarrow> None | Some v \<Rightarrow> if falsy v then None else Some v)"

text \<open>SQL \<^verbatim>\<open>COALESCE(a, b)\<close>.\<close>

definition COALESCE :: "'a option \<Rightarrow> 'a option \<Rightarrow> 'a option" where
  "COALESCE a b = (case a of None \<Rightarrow> b | Some v \<Rightarrow> Some v)"

text \<open>
  The \<^verbatim>\<open>UPDATE orders SET ... WHERE id = $1\<close> of \<^verbatim>\<open>emitStatus\<close>: a statement on the row
  with that key, on no row when there is none. \<^verbatim>\<open>NOW()\<close> reads the clock.
\<close>

definition pg_update ::
  "string \<Rightarrow> OrderStatus \<Rightarrow> DexName option \<Rightarrow> string option \<Rightarrow> string option \<Rightarrow> double option
    \<Rightarrow> state \<Rightarrow> state" where
  "pg_update oid st p3 p4 p5 p6 s =
     s\<lparr>ledger :=
          (case ledger s oid of
             None \<Rightarrow> ledger s
           | Some r \<Rightarrow>
               (ledger s)(oid \<mapsto>
                 r\<lparr>status := st,
                   dex := COALESCE p3 (dex r),
                   tx_hash := COALESCE p4 (tx_hash r),
                   error := COALESCE p5 (error r),
                   executed_price := COALESCE p6 (executed_price r),
                   updated_at := clock s\<rparr>)),
       trace := trace s @ [PgUpdate oid st p3 p4 p5 p6]\<rparr>"

text \<open>The loop over the sockets of one order: only a socket whose \<^verbatim>\<open>readyState\<close> is 1 is sent to.\<close>

fun send_all :: "nat list \<Rightarrow> payload \<Rightarrow> state \<Rightarrow> state" where
  "send_all [] p s = s"
| "send_all (socket # sockets) p s =
     send_all sockets p
       (if readyState s socket = 1 then s\<lparr>trace := trace s @ [WsSend socket p]\<rparr> else s)"

definition redis_sRem :: "string \<Rightarrow> state \<Rightarrow> state" where
  "redis_sRem oid s =
     s\<lparr>active_orders := active_orders s - {oid}, trace := trace s @ [RedisSRem oid]\<rparr>"

definition mk_payload :: "string \<Rightarrow> OrderStatus \<Rightarrow> extra \<Rightarrow> nat \<Rightarrow> payload" where
  "mk_payload oid st ex now =
     \<lparr>ev_orderId = oid, ev_status = st, ev_dex = x_dex ex, ev_txHash = x_txHash ex,
      ev_error = x_error ex, ev_executedPrice = x_executedPrice ex, ev_timestamp = now\<rparr>"

definition emitStatus :: "string \<Rightarrow> OrderStatus \<Rightarrow> extra \<Rightarrow> state \<Rightarrow> state" where
  "emitStatus oid st ex s =
     (let p = mk_payload oid st ex (clock s);
          s1 = pg_update oid st (x_dex ex) (str_or_null (x_txHash ex))
                 (str_or_null (x_error ex)) (num_or_null (x_executedPrice ex)) s;
          s2 = (case orderSockets s1 oid of
                  None \<Rightarrow> s1
                | Some sockets \<Rightarrow> send_all sockets p s1)
      in if st = confirmed \<or> st = failed then redis_sRem oid s2 else s2)"

section \<open>The socket registry\<close>

text \<open>
  A JavaScript \<^verbatim>\<open>Set\<close> keeps insertion order and holds no element twice; it is a list
  without duplicates. A socket is identified by a number.
\<close>

definition set_add :: "nat \<Rightarrow> nat list \<Rightarrow> nat list" where
  "set_add x xs = (if x \<in> set xs then xs else xs @ [x])"

text \<open>
  The handler of \<^verbatim>\<open>GET /api/orders/execute/ws\<close>; the first argument is
  \<^verbatim>\<open>String(query.orderId || "")\<close>. \<^verbatim>\<open>socket.close()\<close> moves the socket to CLOSING (2).
\<close>

definition ws_connect :: "string \<Rightarrow> nat \<Rightarrow> state \<Rightarrow> state" where
  "ws_connect oid socket s =
     (if oid = [] then s\<lparr>readyState := (readyState s)(socket := 2)\<rparr>
      else
        (let set0 = (case orderSockets s oid of None \<Rightarrow> [] | Some xs \<Rightarrow> xs)
         in s\<lparr>orderSockets := (orderSockets s)(oid \<mapsto> set_add socket set0)\<rparr>))"

text \<open>The listener \<^verbatim>\<open>socket.on("close", ...)\<close> registered by that handler.\<close>

definition ws_on_close :: "string \<Rightarrow> nat \<Rightarrow> state \<Rightarrow> state" where
  "ws_on_close oid socket s =
     (case orderSockets s oid of
        None \<Rightarrow> s
      | Some current \<Rightarrow>
          (let current' = removeAll socket current
           in if length current' = 0 then s\<lparr>orderSockets := (orderSockets s)(oid := None)\<rparr>
              else s\<lparr>orderSockets := (orderSockets s)(oid \<mapsto> current')\<rparr>))"

section \<open>MockDexRouter\<close>

definition normalizeToken :: "host \<Rightarrow> js_string \<Rightarrow> js_string" where
  "normalizeToken h symbol =
     (if toUpperCase h symbol = ascii ''SOL'' then ascii ''WSOL'' else toUpperCase h symbol)"

text \<open>
  \<^verbatim>\<open>hash = (hash * 31 + key.charCodeAt(i)) >>> 0\<close>: the product and the sum are exact in a
  double (below \<open>2 ^ 53\<close>), and \<^verbatim>\<open>>>> 0\<close> reduces modulo \<open>2 ^ 32\<close>, which is arithmetic
  on 32-bit words.
\<close>

definition pair_hash :: "js_string \<Rightarrow> 32 word" where
  "pair_hash key = foldl (\<lambda>hash c. hash * 31 + word_of_nat c) 0 key"

text \<open>\<^verbatim>\<open>1 + (hash % 500) / 100\<close>; the remainder is an integer below 500, an exact double.\<close>

definition basePrice :: "js_string \<Rightarrow> js_string \<Rightarrow> double" where
  "basePrice tIn tOut =
     (let key = tIn @ ascii ''-'' @ tOut;
          hash = pair_hash key
      in dadd (Finite 1) (ddiv (Finite (real (unat hash mod 500))) (Finite 100)))"

text \<open>
  Each quote takes the value of its \<^verbatim>\<open>Math.random()\<close> draw for the price as an argument
  (a double in \<open>[0, 1)\<close>); the simulated latency is not part of the quote.
\<close>

definition getRaydiumQuote :: "host \<Rightarrow> double \<Rightarrow> js_string \<Rightarrow> js_string \<Rightarrow> real \<Rightarrow> DexQuote" where
  "getRaydiumQuote h rnd tIn tOut amt =
     (let tIn' = normalizeToken h tIn;
          tOut' = normalizeToken h tOut;
          base = basePrice tIn' tOut'
      in \<lparr>price = dmul base (dadd (lit (98 / 100)) (dmul rnd (lit (4 / 100)))),
          fee = lit (3 / 1000)\<rparr>)"

definition getMeteorQuote :: "host \<Rightarrow> double \<Rightarrow> js_string \<Rightarrow> js_string \<Rightarrow> real \<Rightarrow> DexQuote" where
  "getMeteorQuote h rnd tIn tOut amt =
     (let tIn' = normalizeToken h tIn;
          tOut' = normalizeToken h tOut;
          base = basePrice tIn' tOut'
      in \<lparr>price = dmul base (dadd (lit (97 / 100)) (dmul rnd (lit (5 / 100)))),
          fee = lit (2 / 1000)\<rparr>)"

text \<open>\<^verbatim>\<open>"0x" + randomUUID().replace(/-/g, "")\<close>, the UUID being an argument.\<close>

definition generateMockTxHash :: "string \<Rightarrow> string" where
  "generateMockTxHash uuid = ''0x'' @ filter (\<lambda>c. c \<noteq> CHR ''-'') uuid"

definition executeSwap :: "double \<Rightarrow> string \<Rightarrow> DexName \<Rightarrow> OrderJobData \<Rightarrow> double \<Rightarrow> SwapResult" where
  "executeSwap rnd uuid d order quotedPrice =
     (let slippageFactor = dadd (lit (995 / 1000)) (dmul rnd (lit (1 / 100)));
          executedPrice' = dmul quotedPrice slippageFactor
      in \<lparr>txHash = generateMockTxHash uuid, executedPrice = executedPrice'\<rparr>)"

text \<open>
  What the worker sees of \<^verbatim>\<open>dexRouter\<close> during one attempt: the three operations it
  awaits, with the random draws of that attempt resolved, and the time each await took
  (both quotes are awaited together). \<open>MockDexRouter\<close> is the router of the repository;
  the worker itself is written against the interface.
\<close>

record dex_router =
  rt_getRaydiumQuote :: "js_string \<Rightarrow> js_string \<Rightarrow> real \<Rightarrow> DexQuote"
  rt_getMeteorQuote :: "js_string \<Rightarrow> js_string \<Rightarrow> real \<Rightarrow> DexQuote"
  rt_executeSwap :: "DexName \<Rightarrow> OrderJobData \<Rightarrow> double \<Rightarrow> SwapResult"
  rt_quote_ms :: nat
  rt_swap_ms :: nat

definition MockDexRouter ::
  "host \<Rightarrow> double \<Rightarrow> double \<Rightarrow> double \<Rightarrow> string \<Rightarrow> nat \<Rightarrow> nat \<Rightarrow> dex_router" where
  "MockDexRouter h rnd1 rnd2 rnd3 uuid ms1 ms2 =
     \<lparr>rt_getRaydiumQuote = getRaydiumQuote h rnd1,
      rt_getMeteorQuote = getMeteorQuote h rnd2,
      rt_executeSwap = executeSwap rnd3 uuid,
      rt_quote_ms = ms1,
      rt_swap_ms = ms2\<rparr>"

section \<open>The worker\<close>

datatype js_error = Error (message: string)

record job_return =
  ret_dex :: DexName
  ret_txHash :: string
  ret_executedPrice :: double

definition sleep :: "nat \<Rightarrow> state \<Rightarrow> state" where
  "sleep ms s = s\<lparr>clock := clock s + ms\<rparr>"

text \<open>
  \<^verbatim>\<open>toFixed(4)\<close>: of a finite number below \<open>10 ^ 21\<close> in magnitude, the multiple of
  \<open>10 ^ -4\<close> nearest to its exact value (the larger one on a tie), written with four
  decimals and a minus sign for a negative number; beyond that, the number as
  \<^verbatim>\<open>toString\<close> writes it.
\<close>

fun decimal :: "nat \<Rightarrow> string" where
  "decimal n =
     (if n < 10 then [char_of (48 + n)] else decimal (n div 10) @ [char_of (48 + n mod 10)])"

definition toFixed4 :: "host \<Rightarrow> double \<Rightarrow> string" where
  "toFixed4 h a =
     (case a of
        NaN \<Rightarrow> ''NaN''
      | PosInfinity \<Rightarrow> ''Infinity''
      | NegInfinity \<Rightarrow> ''-Infinity''
      | NegZero \<Rightarrow> ''0.0000''
      | Finite x \<Rightarrow>
          (if x < 0 then ''-'' else '''') @
          (if 10 ^ 21 \<le> \<bar>x\<bar> then numberToString h \<bar>x\<bar>
           else
             (let n = nat \<lfloor>\<bar>x\<bar> * 10000 + 1 / 2\<rfloor>;
                  frac = decimal (n mod 10000)
              in decimal (n div 10000) @ ''.'' @ replicate (4 - length frac) CHR ''0'' @ frac)))"

definition allowedSlippage :: double where
  "allowedSlippage = lit (1 / 100)"

text \<open>
  The processor function given to \<^verbatim>\<open>new Worker\<close>: one attempt at one job. It returns
  the thrown error or the returned object, and the state it leaves behind. The
  \<^verbatim>\<open>console.log\<close> of the routing decision is not modelled.
\<close>

definition worker ::
  "host \<Rightarrow> dex_router \<Rightarrow> OrderJobData \<Rightarrow> state \<Rightarrow> (js_error + job_return) \<times> state" where
  "worker h rt job s0 =
     (let s1 = emitStatus (orderId job) routing no_extra s0;
          raydiumQuote = rt_getRaydiumQuote rt (tokenIn job) (tokenOut job) (amount job);
          meteoraQuote = rt_getMeteorQuote rt (tokenIn job) (tokenOut job) (amount job);
          s1' = sleep (rt_quote_ms rt) s1;
          raydiumEffective = dmul (price raydiumQuote) (dsub (Finite 1) (fee raydiumQuote));
          meteoraEffective = dmul (price meteoraQuote) (dsub (Finite 1) (fee meteoraQuote));
          bestDex = (if dgt meteoraEffective raydiumEffective then meteora else raydium);
          bestQuote = (if bestDex = meteora then meteoraQuote else raydiumQuote);
          s2 = emitStatus (orderId job) building (no_extra\<lparr>x_dex := Some bestDex\<rparr>) s1'
      in if otype job \<noteq> ''market'' then (Inl (Error ''Unsupported order type''), s2)
         else
           (let s3 = emitStatus (orderId job) submitted (no_extra\<lparr>x_dex := Some bestDex\<rparr>) s2;
                swapResult = rt_executeSwap rt bestDex job (price bestQuote);
                s3' = sleep (rt_swap_ms rt) s3;
                diff = dabs (dsub (executedPrice swapResult) (price bestQuote));
                relativeDiff = ddiv diff (price bestQuote)
            in if dgt relativeDiff allowedSlippage
               then (Inl (Error (''Slippage too high: '' @ toFixed4 h relativeDiff @ '' > 0.01'')), s3')
               else
                 (let s4 = emitStatus (orderId job) confirmed
                             \<lparr>x_dex = Some bestDex, x_txHash = Some (txHash swapResult),
                              x_error = None, x_executedPrice = Some (executedPrice swapResult)\<rparr> s3'
                  in (Inr \<lparr>ret_dex = bestDex, ret_txHash = txHash swapResult,
                            ret_executedPrice = executedPrice swapResult\<rparr>, s4))))"

text \<open>The listener \<^verbatim>\<open>worker.on("failed", ...)\<close>; the job may be undefined.\<close>

definition on_failed :: "OrderJobData option \<Rightarrow> js_error \<Rightarrow> state \<Rightarrow> state" where
  "on_failed job err s =
     (case job of
        None \<Rightarrow> s
      | Some j \<Rightarrow>
          emitStatus (orderId j) failed
            (no_extra\<lparr>x_error :=
               Some (if message err = [] then ''unknown_error'' else message err)\<rparr>) s)"

section \<open>The queue: attempts and backoff\<close>

text \<open>
  The queue is created with \<^verbatim>\<open>attempts: 3\<close> and
  \<^verbatim>\<open>backoff: {type: "exponential", delay: 500}\<close>. BullMQ runs the processor; when it
  throws, the worker emits its \<^verbatim>\<open>failed\<close> event (on every attempt that throws, the
  listener above has no other trigger) and, while fewer than \<^verbatim>\<open>attempts\<close> attempts have
  been made, runs the job again after \<open>2 ^ (attemptsMade - 1) * delay\<close> milliseconds.
  A job that returns is completed and not run again. The argument \<open>rts\<close> gives the
  router as the attempt with that number (from 0) sees it.
\<close>

definition attempts :: nat where
  "attempts = 3"

definition backoff_delay :: nat where
  "backoff_delay = 500"

datatype job_result = Completed job_return | Exhausted js_error

fun attempt_loop ::
  "host \<Rightarrow> nat \<Rightarrow> nat \<Rightarrow> (nat \<Rightarrow> dex_router) \<Rightarrow> OrderJobData \<Rightarrow> state \<Rightarrow> job_result \<times> state"
  where
  "attempt_loop h 0 made rts job s =
     (case worker h (rts made) job s of
        (Inr r, s1) \<Rightarrow> (Completed r, s1)
      | (Inl e, s1) \<Rightarrow> (Exhausted e, on_failed (Some job) e s1))"
| "attempt_loop h (Suc left) made rts job s =
     (case worker h (rts made) job s of
        (Inr r, s1) \<Rightarrow> (Completed r, s1)
      | (Inl e, s1) \<Rightarrow>
          attempt_loop h left (Suc made) rts job
            (sleep (2 ^ made * backoff_delay) (on_failed (Some job) e s1)))"

definition run_job :: "host \<Rightarrow> (nat \<Rightarrow> dex_router) \<Rightarrow> OrderJobData \<Rightarrow> state \<Rightarrow> job_result \<times> state" where
  "run_job h rts job s = attempt_loop h (attempts - 1) 0 rts job s"

section \<open>POST /api/orders/execute\<close>

text \<open>
  The request body after the handler's coercions: \<^verbatim>\<open>String(body.tokenIn || "")\<close>,
  \<^verbatim>\<open>String(body.tokenOut || "")\<close>, and \<^verbatim>\<open>Number(body.amount)\<close> when it is finite
  (\<open>None\<close> otherwise). \<open>body_type\<close> is whatever the body carries as its order type; the
  handler never reads it. The fresh UUID is an argument. A key that is already in the
  table makes the \<^verbatim>\<open>INSERT\<close> fail, and the request with it.
\<close>

record request_body =
  body_tokenIn :: js_string
  body_tokenOut :: js_string
  body_amount :: "real option"
  body_type :: "string option"

datatype reply = Reply400 string | Reply200 string | Reply500

definition pg_insert :: "string \<Rightarrow> order_row \<Rightarrow> state \<Rightarrow> state" where
  "pg_insert oid r s = s\<lparr>ledger := (ledger s)(oid \<mapsto> r), trace := trace s @ [PgInsert oid r]\<rparr>"

definition redis_sAdd :: "string \<Rightarrow> state \<Rightarrow> state" where
  "redis_sAdd oid s =
     s\<lparr>active_orders := insert oid (active_orders s), trace := trace s @ [RedisSAdd oid]\<rparr>"

definition queue_add :: "OrderJobData \<Rightarrow> state \<Rightarrow> state" where
  "queue_add job s = s\<lparr>queue := queue s @ [job], trace := trace s @ [QueueAdd job]\<rparr>"

definition post_execute :: "string \<Rightarrow> request_body \<Rightarrow> state \<Rightarrow> reply \<times> state" where
  "post_execute uuid body s =
     (let tokenIn' = body_tokenIn body;
          tokenOut' = body_tokenOut body
      in case body_amount body of
           None \<Rightarrow> (Reply400 ''invalid_order'', s)
         | Some amount' \<Rightarrow>
             if tokenIn' = [] \<or> tokenOut' = [] \<or> amount' \<le> 0
             then (Reply400 ''invalid_order'', s)
             else
               (let orderId' = uuid;
                    order = \<lparr>orderId = orderId', tokenIn = tokenIn', tokenOut = tokenOut',
                             amount = amount', otype = ''market''\<rparr>
                in if ledger s orderId' \<noteq> None then (Reply500, s)
                   else
                     (let s1 = pg_insert orderId'
                                 \<lparr>type_col = otype order, token_in = tokenIn order,
                                  token_out = tokenOut order, amount_col = amount order,
                                  status = pending, dex = None, tx_hash = None, error = None,
                                  executed_price = None, created_at = clock s,
                                  updated_at = clock s\<rparr> s;
                          s2 = redis_sAdd orderId' s1;
                          s3 = queue_add order s2;
                          s4 = emitStatus orderId' pending no_extra s3
                      in (Reply200 orderId', s4))))"

section \<open>Notions used by the statements\<close>

text \<open>The sockets registered for an order (none when the registry has no entry).\<close>

definition registered :: "state \<Rightarrow> string \<Rightarrow> nat list" where
  "registered s oid = (case orderSockets s oid of None \<Rightarrow> [] | Some xs \<Rightarrow> xs)"

text \<open>The messages sent to sockets, and the statuses written to the ledger, in a trace.\<close>

fun sends_of :: "effect list \<Rightarrow> (nat \<times> payload) list" where
  "sends_of [] = []"
| "sends_of (WsSend k p # es) = (k, p) # sends_of es"
| "sends_of (e # es) = sends_of es"

fun updates_of :: "effect list \<Rightarrow> OrderStatus list" where
  "updates_of [] = []"
| "updates_of (PgUpdate oid st a b c d # es) = st # updates_of es"
| "updates_of (e # es) = updates_of es"

text \<open>
  The picking of a job: the worker takes the oldest waiting job off the queue and runs it
  under the retry policy.
\<close>

definition process_next ::
  "host \<Rightarrow> (nat \<Rightarrow> dex_router) \<Rightarrow> state \<Rightarrow> (job_result \<times> state) option" where
  "process_next h rts s =
     (case queue s of
        [] \<Rightarrow> None
      | job # waiting \<Rightarrow> Some (run_job h rts job (s\<lparr>queue := waiting\<rparr>)))"

text \<open>
  The values that one attempt of the worker computes, as functions of the router and the
  job; they carry the names of the worker's constants.
\<close>

definition effectivePrice :: "DexQuote \<Rightarrow> double" where
  "effectivePrice q = dmul (price q) (dsub (Finite 1) (fee q))"

definition raydiumQuote :: "dex_router \<Rightarrow> OrderJobData \<Rightarrow> DexQuote" where
  "raydiumQuote rt job = rt_getRaydiumQuote rt (tokenIn job) (tokenOut job) (amount job)"

definition meteoraQuote :: "dex_router \<Rightarrow> OrderJobData \<Rightarrow> DexQuote" where
  "meteoraQuote rt job = rt_getMeteorQuote rt (tokenIn job) (tokenOut job) (amount job)"

definition bestDex :: "DexQuote \<Rightarrow> DexQuote \<Rightarrow> DexName" where
  "bestDex rq mq = (if dgt (effectivePrice mq) (effectivePrice rq) then meteora else raydium)"

definition bestQuote :: "DexQuote \<Rightarrow> DexQuote \<Rightarrow> DexQuote" where
  "bestQuote rq mq = (if bestDex rq mq = meteora then mq else rq)"

definition chosenDex :: "dex_router \<Rightarrow> OrderJobData \<Rightarrow> DexName" where
  "chosenDex rt job = bestDex (raydiumQuote rt job) (meteoraQuote rt job)"

definition quotedPrice :: "dex_router \<Rightarrow> OrderJobData \<Rightarrow> double" where
  "quotedPrice rt job = price (bestQuote (raydiumQuote rt job) (meteoraQuote rt job))"

definition swapResult :: "dex_router \<Rightarrow> OrderJobData \<Rightarrow> SwapResult" where
  "swapResult rt job = rt_executeSwap rt (chosenDex rt job) job (quotedPrice rt job)"

definition relativeDiff :: "dex_router \<Rightarrow> OrderJobData \<Rightarrow> double" where
  "relativeDiff rt job =
     ddiv (dabs (dsub (executedPrice (swapResult rt job)) (quotedPrice rt job)))
       (quotedPrice rt job)"

text \<open>
  The state operations of the program are calls of \<open>emitStatus\<close> and waiting. A list
  of them, applied in order, describes what a piece of the program did to the state.
\<close>

datatype action = Emit string OrderStatus extra | Sleep nat

fun apply_action :: "action \<Rightarrow> state \<Rightarrow> state" where
  "apply_action (Emit oid st ex) s = emitStatus oid st ex s"
| "apply_action (Sleep ms) s = sleep ms s"

fun apply_actions :: "action list \<Rightarrow> state \<Rightarrow> state" where
  "apply_actions [] s = s"
| "apply_actions (a # as) s = apply_actions as (apply_action a s)"

fun statuses :: "action list \<Rightarrow> OrderStatus list" where
  "statuses [] = []"
| "statuses (Emit oid st ex # as) = st # statuses as"
| "statuses (Sleep ms # as) = statuses as"

text \<open>The result and the state operations of one attempt, and of a job under the retry policy.\<close>

definition slippage_message :: "host \<Rightarrow> double \<Rightarrow> string" where
  "slippage_message h q = ''Slippage too high: '' @ toFixed4 h q @ '' > 0.01''"

definition worker_result :: "host \<Rightarrow> dex_router \<Rightarrow> OrderJobData \<Rightarrow> js_error + job_return" where
  "worker_result h rt job =
     (if otype job \<noteq> ''market'' then Inl (Error ''Unsupported order type'')
      else if dgt (relativeDiff rt job) allowedSlippage
      then Inl (Error (slippage_message h (relativeDiff rt job)))
      else Inr \<lparr>ret_dex = chosenDex rt job, ret_txHash = txHash (swapResult rt job),
                ret_executedPrice = executedPrice (swapResult rt job)\<rparr>)"

definition confirmed_extra :: "dex_router \<Rightarrow> OrderJobData \<Rightarrow> extra" where
  "confirmed_extra rt job =
     \<lparr>x_dex = Some (chosenDex rt job), x_txHash = Some (txHash (swapResult rt job)),
      x_error = None, x_executedPrice = Some (executedPrice (swapResult rt job))\<rparr>"

definition worker_actions :: "dex_router \<Rightarrow> OrderJobData \<Rightarrow> action list" where
  "worker_actions rt job =
     [Emit (orderId job) routing no_extra, Sleep (rt_quote_ms rt),
      Emit (orderId job) building (no_extra\<lparr>x_dex := Some (chosenDex rt job)\<rparr>)] @
     (if otype job \<noteq> ''market'' then []
      else
        [Emit (orderId job) submitted (no_extra\<lparr>x_dex := Some (chosenDex rt job)\<rparr>),
         Sleep (rt_swap_ms rt)] @
        (if dgt (relativeDiff rt job) allowedSlippage then []
         else [Emit (orderId job) confirmed (confirmed_extra rt job)]))"

definition failed_action :: "OrderJobData \<Rightarrow> js_error \<Rightarrow> action" where
  "failed_action job err =
     Emit (orderId job) failed
       (no_extra\<lparr>x_error := Some (if message err = [] then ''unknown_error'' else message err)\<rparr>)"

fun job_actions ::
  "host \<Rightarrow> nat \<Rightarrow> nat \<Rightarrow> (nat \<Rightarrow> dex_router) \<Rightarrow> OrderJobData \<Rightarrow> action list" where
  "job_actions h 0 made rts job =
     worker_actions (rts made) job @
     (case worker_result h (rts made) job of
        Inr r \<Rightarrow> []
      | Inl e \<Rightarrow> [failed_action job e])"
| "job_actions h (Suc left) made rts job =
     worker_actions (rts made) job @
     (case worker_result h (rts made) job of
        Inr r \<Rightarrow> []
      | Inl e \<Rightarrow>
          failed_action job e # Sleep (2 ^ made * backoff_delay) #
          job_actions h left (Suc made) rts job)"

text \<open>
  The number of the attempt at which a job stops: the first attempt that returns, or the
  last one allowed.
\<close>

fun last_attempt :: "host \<Rightarrow> nat \<Rightarrow> nat \<Rightarrow> (nat \<Rightarrow> dex_router) \<Rightarrow> OrderJobData \<Rightarrow> nat" where
  "last_attempt h 0 made rts job = made"
| "last_attempt h (Suc left) made rts job =
     (case worker_result h (rts made) job of
        Inr r \<Rightarrow> made
      | Inl e \<Rightarrow> last_attempt h left (Suc made) rts job)"

text \<open>
  The endpoint emits \<open>pending\<close> after it has enqueued the job, so this emit can land
  anywhere among the state operations of the job: after the first \<open>n\<close> of them, or after
  all of them.
\<close>

definition with_pending :: "nat \<Rightarrow> string \<Rightarrow> action list \<Rightarrow> action list" where
  "with_pending n oid as = take n as @ Emit oid pending no_extra # drop n as"

text \<open>Whether a state operation supplies a settlement id or a realized price.\<close>

fun sets_settlement :: "action \<Rightarrow> bool" where
  "sets_settlement (Emit oid st ex) = (x_txHash ex \<noteq> None \<or> x_executedPrice ex \<noteq> None)"
| "sets_settlement (Sleep ms) = False"

text \<open>
  The lifecycle as the specification words it: a status sequence is a prefix of the
  success path, or a non-empty prefix of its non-terminal part followed by \<open>failed\<close>.
\<close>

definition lifecycle_ok :: "OrderStatus list \<Rightarrow> bool" where
  "lifecycle_ok xs =
     (xs = take (length xs) [pending, routing, building, submitted, confirmed] \<or>
      (butlast xs \<noteq> [] \<and> last xs = failed \<and>
       butlast xs = take (length (butlast xs)) [pending, routing, building, submitted]))"

subsection \<open>Example inputs\<close>

text \<open>
  A host for the examples. On ASCII strings \<^verbatim>\<open>toUpperCase\<close> moves the letters a to z
  down by 32 and changes nothing else; the examples use ASCII symbols only, and print no
  number of magnitude \<open>10 ^ 21\<close> or more.
\<close>

definition ascii_upper :: "js_string \<Rightarrow> js_string" where
  "ascii_upper s = map (\<lambda>c. if 97 \<le> c \<and> c \<le> 122 then c - 32 else c) s"

definition host0 :: host where
  "host0 = \<lparr>toUpperCase = ascii_upper, numberToString = (\<lambda>x. [])\<rparr>"

text \<open>
  An accepted order \<open>o1\<close> with two registered sockets: socket 7 is open, socket 8 is
  closing and its close event has not been handled yet.
\<close>

definition row0 :: order_row where
  "row0 = \<lparr>type_col = ''market'', token_in = ascii ''SOL'', token_out = ascii ''USDC'',
           amount_col = 3 / 2, status = pending, dex = None, tx_hash = None, error = None,
           executed_price = None, created_at = 100, updated_at = 100\<rparr>"

definition state0 :: state where
  "state0 = \<lparr>ledger = [''o1'' \<mapsto> row0], orderSockets = [''o1'' \<mapsto> [7, 8]],
             readyState = (\<lambda>k. if k = 7 then 1 else 2), active_orders = {''o1''},
             queue = [], clock = 250, trace = []\<rparr>"

definition extra0 :: extra where
  "extra0 = \<lparr>x_dex = Some raydium, x_txHash = Some ''0xab'', x_error = None,
             x_executedPrice = Some (Finite 2)\<rparr>"

definition job0 :: OrderJobData where
  "job0 = \<lparr>orderId = ''o1'', tokenIn = ascii ''SOL'', tokenOut = ascii ''USDC'',
           amount = 3 / 2, otype = ''market''\<rparr>"

text \<open>The same job with an order type that the worker does not support.\<close>

definition limit_job :: OrderJobData where
  "limit_job = job0\<lparr>otype := ''limit''\<rparr>"

definition body0 :: request_body where
  "body0 = \<lparr>body_tokenIn = ascii ''SOL'', body_tokenOut = ascii ''USDC'',
            body_amount = Some (3 / 2), body_type = Some ''limit''\<rparr>"

text \<open>A server with no orders, where socket 7 is open.\<close>

definition empty_state :: state where
  "empty_state = \<lparr>ledger = Map.empty, orderSockets = Map.empty,
                  readyState = (\<lambda>k. if k = 7 then 1 else 2), active_orders = {},
                  queue = [], clock = 0, trace = []\<rparr>"

text \<open>A router that answers with two given quotes and a given realized price.\<close>

definition fixed_router :: "DexQuote \<Rightarrow> DexQuote \<Rightarrow> double \<Rightarrow> dex_router" where
  "fixed_router rq mq realized =
     \<lparr>rt_getRaydiumQuote = (\<lambda>tIn tOut amt. rq),
      rt_getMeteorQuote = (\<lambda>tIn tOut amt. mq),
      rt_executeSwap = (\<lambda>d order q. \<lparr>txHash = ''0xabc'', executedPrice = realized\<rparr>),
      rt_quote_ms = 300, rt_swap_ms = 2500\<rparr>"

text \<open>
  Raydium quotes 1.000 with fee 0.003 and Meteora 0.99 with fee 0.002, so Raydium is
  chosen at the quote 1.000. The realized price is 1.012, 1.008 or 1.01.
\<close>

definition unit_router :: "double \<Rightarrow> dex_router" where
  "unit_router realized =
     fixed_router \<lparr>price = Finite 1, fee = lit (3 / 1000)\<rparr>
       \<lparr>price = lit (99 / 100), fee = lit (2 / 1000)\<rparr> realized"

definition slip_router :: dex_router where
  "slip_router = unit_router (lit (1012 / 1000))"

definition ok_router :: dex_router where
  "ok_router = unit_router (lit (1008 / 1000))"

definition edge_router :: dex_router where
  "edge_router = unit_router (lit (101 / 100))"

text \<open>
  Raydium quotes 99.8 with fee 0.003 and Meteora 99.7 with fee 0.002: the exact products
  are equal, the products in doubles are not. And two equal quotes.
\<close>

definition close_router :: dex_router where
  "close_router =
     fixed_router \<lparr>price = lit (998 / 10), fee = lit (3 / 1000)\<rparr>
       \<lparr>price = lit (997 / 10), fee = lit (2 / 1000)\<rparr> (Finite 100)"

definition tie_router :: dex_router where
  "tie_router =
     fixed_router \<lparr>price = Finite 2, fee = Finite (1 / 4)\<rparr>
       \<lparr>price = Finite 2, fee = Finite (1 / 4)\<rparr> (Finite 2)"

text \<open>Every attempt is 1.2 percent off its quote of 1.000.\<close>

definition always_slipping :: "nat \<Rightarrow> dex_router" where
  "always_slipping n = slip_router"

text \<open>
  The router of the repository with given draws: in the first attempt the draws are 0.5
  for Raydium and 0 for Meteora, in the later attempts 0 and 0.5; the draw of the swap is
  0.5.
\<close>

definition uuid0 :: string where
  "uuid0 = ''123e4567-e89b-12d3-a456-426614174000''"

definition mock_first :: dex_router where
  "mock_first = MockDexRouter host0 (Finite (1 / 2)) (Finite 0) (Finite (1 / 2)) uuid0 300 2500"

definition mock_later :: dex_router where
  "mock_later = MockDexRouter host0 (Finite 0) (Finite (1 / 2)) (Finite (1 / 2)) uuid0 300 2500"

definition mock_draws :: "nat \<Rightarrow> dex_router" where
  "mock_draws n = (if n = 0 then mock_first else mock_later)"


section \<open>Effects of emitStatus\<close>

text \<open>
  What one call of \<open>emitStatus\<close> does to each field of the state: the row of its
  order, the trace, and nothing else but \<^verbatim>\<open>active_orders\<close> on a terminal status.
\<close>

lemma send_all_fields [simp]:
  "ledger (send_all xs p s) = ledger s"
  "orderSockets (send_all xs p s) = orderSockets s"
  "readyState (send_all xs p s) = readyState s"
  "active_orders (send_all xs p s) = active_orders s"
  "queue (send_all xs p s) = queue s"
  "clock (send_all xs p s) = clock s"
  by (induction xs arbitrary: s) auto

lemma send_all_trace:
  "trace (send_all xs p s) =
     trace s @ map (\<lambda>k. WsSend k p) (filter (\<lambda>k. readyState s k = 1) xs)"
  by (induction xs arbitrary: s) auto


lemma pg_update_fields [simp]:
  "orderSockets (pg_update oid st a b c d s) = orderSockets s"
  "readyState (pg_update oid st a b c d s) = readyState s"
  "active_orders (pg_update oid st a b c d s) = active_orders s"
  "queue (pg_update oid st a b c d s) = queue s"
  "clock (pg_update oid st a b c d s) = clock s"
  "trace (pg_update oid st a b c d s) = trace s @ [PgUpdate oid st a b c d]"
  by (simp_all add: pg_update_def)

lemma emitStatus_fields [simp]:
  "orderSockets (emitStatus oid st ex s) = orderSockets s"
  "readyState (emitStatus oid st ex s) = readyState s"
  "queue (emitStatus oid st ex s) = queue s"
  "clock (emitStatus oid st ex s) = clock s"
  by (simp_all add: emitStatus_def Let_def redis_sRem_def split: option.splits)

lemma emitStatus_ledger:
  "ledger (emitStatus oid st ex s) =
     ledger (pg_update oid st (x_dex ex) (str_or_null (x_txHash ex))
       (str_or_null (x_error ex)) (num_or_null (x_executedPrice ex)) s)"
  by (simp add: emitStatus_def Let_def redis_sRem_def split: option.splits)

lemma emitStatus_trace:
  "trace (emitStatus oid st ex s) =
     trace s @
     PgUpdate oid st (x_dex ex) (str_or_null (x_txHash ex)) (str_or_null (x_error ex))
       (num_or_null (x_executedPrice ex)) #
     map (\<lambda>k. WsSend k (mk_payload oid st ex (clock s)))
       (filter (\<lambda>k. readyState s k = 1) (registered s oid)) @
     (if st = confirmed \<or> st = failed then [RedisSRem oid] else [])"
  by (simp add: emitStatus_def Let_def redis_sRem_def send_all_trace registered_def
      split: option.splits)

lemma emitStatus_active:
  "active_orders (emitStatus oid st ex s) =
     (if st = confirmed \<or> st = failed then active_orders s - {oid} else active_orders s)"
  by (simp add: emitStatus_def Let_def redis_sRem_def split: option.splits)

lemma emitStatus_row:
  "ledger (emitStatus oid st ex s) k =
     (if k = oid then
        (case ledger s oid of
           None \<Rightarrow> None
         | Some r \<Rightarrow>
             Some (r\<lparr>status := st,
                     dex := COALESCE (x_dex ex) (dex r),
                     tx_hash := COALESCE (str_or_null (x_txHash ex)) (tx_hash r),
                     error := COALESCE (str_or_null (x_error ex)) (error r),
                     executed_price := COALESCE (num_or_null (x_executedPrice ex)) (executed_price r),
                     updated_at := clock s\<rparr>))
      else ledger s k)"
  by (simp add: emitStatus_ledger pg_update_def split: option.splits)


lemma sends_of_append: "sends_of (xs @ ys) = sends_of xs @ sends_of ys"
  by (induction xs rule: sends_of.induct) auto

lemma updates_of_append: "updates_of (xs @ ys) = updates_of xs @ updates_of ys"
  by (induction xs rule: updates_of.induct) auto

lemma sends_of_map_WsSend: "sends_of (map (\<lambda>k. WsSend k p) ks) = map (\<lambda>k. (k, p)) ks"
  by (induction ks) auto

lemma updates_of_map_WsSend: "updates_of (map (\<lambda>k. WsSend k p) ks) = []"
  by (induction ks) auto


text \<open>
  C5: one call of \<open>emitStatus\<close> performs its effects in this order: first the
  \<^verbatim>\<open>UPDATE\<close> of the ledger row, then the sends to the open sockets of the order, then
  (for a terminal status) the removal from \<^verbatim>\<open>active_orders\<close>. Every event sent carries
  the order identifier, the new status and the optional fields of the call, and the row
  that the write has left holds that status and every field that the event carries with
  a value that \<^verbatim>\<open>||\<close> does not turn into \<^verbatim>\<open>null\<close> (a non-empty string, a number other than
  0 and NaN).
\<close>

theorem emitStatus_persists_before_notify:
  "trace (emitStatus oid st ex s) =
     trace s @
     PgUpdate oid st (x_dex ex) (str_or_null (x_txHash ex)) (str_or_null (x_error ex))
       (num_or_null (x_executedPrice ex)) #
     map (\<lambda>k. WsSend k
             \<lparr>ev_orderId = oid, ev_status = st, ev_dex = x_dex ex, ev_txHash = x_txHash ex,
              ev_error = x_error ex, ev_executedPrice = x_executedPrice ex,
              ev_timestamp = clock s\<rparr>)
       (filter (\<lambda>k. readyState s k = 1) (registered s oid)) @
     (if st = confirmed \<or> st = failed then [RedisSRem oid] else [])
   \<and> (\<forall>r. ledger s oid = Some r \<longrightarrow>
        (\<exists>r'. ledger (emitStatus oid st ex s) oid = Some r' \<and> status r' = st \<and>
           (\<forall>d. x_dex ex = Some d \<longrightarrow> dex r' = Some d) \<and>
           (\<forall>h. x_txHash ex = Some h \<and> h \<noteq> [] \<longrightarrow> tx_hash r' = Some h) \<and>
           (\<forall>m. x_error ex = Some m \<and> m \<noteq> [] \<longrightarrow> error r' = Some m) \<and>
           (\<forall>v. x_executedPrice ex = Some v \<and> \<not> falsy v \<longrightarrow> executed_price r' = Some v) \<and>
           (\<forall>k p. (k, p) \<in> set (sends_of (drop (length (trace s))
                                   (trace (emitStatus oid st ex s)))) \<longrightarrow>
              ev_orderId p = oid \<and> ev_status p = status r' \<and>
              (\<forall>d. ev_dex p = Some d \<longrightarrow> dex r' = Some d) \<and>
              (\<forall>h. ev_txHash p = Some h \<and> h \<noteq> [] \<longrightarrow> tx_hash r' = Some h) \<and>
              (\<forall>m. ev_error p = Some m \<and> m \<noteq> [] \<longrightarrow> error r' = Some m) \<and>
              (\<forall>v. ev_executedPrice p = Some v \<and> \<not> falsy v \<longrightarrow>
                     executed_price r' = Some v))))"
proof (intro conjI allI impI)
  show "trace (emitStatus oid st ex s) =
     trace s @
     PgUpdate oid st (x_dex ex) (str_or_null (x_txHash ex)) (str_or_null (x_error ex))
       (num_or_null (x_executedPrice ex)) #
     map (\<lambda>k. WsSend k
             \<lparr>ev_orderId = oid, ev_status = st, ev_dex = x_dex ex, ev_txHash = x_txHash ex,
              ev_error = x_error ex, ev_executedPrice = x_executedPrice ex,
              ev_timestamp = clock s\<rparr>)
       (filter (\<lambda>k. readyState s k = 1) (registered s oid)) @
     (if st = confirmed \<or> st = failed then [RedisSRem oid] else [])"
    by (simp add: emitStatus_trace mk_payload_def)
next
  fix r
  assume r: "ledger s oid = Some r"
  let ?r' = "r\<lparr>status := st,
               dex := COALESCE (x_dex ex) (dex r),
               tx_hash := COALESCE (str_or_null (x_txHash ex)) (tx_hash r),
               error := COALESCE (str_or_null (x_error ex)) (error r),
               executed_price := COALESCE (num_or_null (x_executedPrice ex)) (executed_price r),
               updated_at := clock s\<rparr>"
  have row: "ledger (emitStatus oid st ex s) oid = Some ?r'"
    using r by (simp add: emitStatus_row)
  have fields: "status ?r' = st"
    "\<forall>d. x_dex ex = Some d \<longrightarrow> dex ?r' = Some d"
    "\<forall>h. x_txHash ex = Some h \<and> h \<noteq> [] \<longrightarrow> tx_hash ?r' = Some h"
    "\<forall>m. x_error ex = Some m \<and> m \<noteq> [] \<longrightarrow> error ?r' = Some m"
    "\<forall>v. x_executedPrice ex = Some v \<and> \<not> falsy v \<longrightarrow> executed_price ?r' = Some v"
    by (simp_all add: COALESCE_def str_or_null_def num_or_null_def)
  have sent: "p = mk_payload oid st ex (clock s)"
    if "(k, p) \<in> set (sends_of (drop (length (trace s)) (trace (emitStatus oid st ex s))))"
    for k p
    using that
    by (auto simp: emitStatus_trace sends_of_append sends_of_map_WsSend split: if_splits)
  have "\<forall>k p. (k, p) \<in> set (sends_of (drop (length (trace s))
                                   (trace (emitStatus oid st ex s)))) \<longrightarrow>
              ev_orderId p = oid \<and> ev_status p = status ?r' \<and>
              (\<forall>d. ev_dex p = Some d \<longrightarrow> dex ?r' = Some d) \<and>
              (\<forall>h. ev_txHash p = Some h \<and> h \<noteq> [] \<longrightarrow> tx_hash ?r' = Some h) \<and>
              (\<forall>m. ev_error p = Some m \<and> m \<noteq> [] \<longrightarrow> error ?r' = Some m) \<and>
              (\<forall>v. ev_executedPrice p = Some v \<and> \<not> falsy v \<longrightarrow>
                     executed_price ?r' = Some v)"
  proof (intro allI impI)
    fix k p
    assume "(k, p) \<in> set (sends_of (drop (length (trace s)) (trace (emitStatus oid st ex s))))"
    then have "p = mk_payload oid st ex (clock s)"
      by (rule sent)
    then show "ev_orderId p = oid \<and> ev_status p = status ?r' \<and>
              (\<forall>d. ev_dex p = Some d \<longrightarrow> dex ?r' = Some d) \<and>
              (\<forall>h. ev_txHash p = Some h \<and> h \<noteq> [] \<longrightarrow> tx_hash ?r' = Some h) \<and>
              (\<forall>m. ev_error p = Some m \<and> m \<noteq> [] \<longrightarrow> error ?r' = Some m) \<and>
              (\<forall>v. ev_executedPrice p = Some v \<and> \<not> falsy v \<longrightarrow>
                     executed_price ?r' = Some v)"
      using fields by (simp add: mk_payload_def)
  qed
  with row fields show "\<exists>r'. ledger (emitStatus oid st ex s) oid = Some r' \<and> status r' = st \<and>
           (\<forall>d. x_dex ex = Some d \<longrightarrow> dex r' = Some d) \<and>
           (\<forall>h. x_txHash ex = Some h \<and> h \<noteq> [] \<longrightarrow> tx_hash r' = Some h) \<and>
           (\<forall>m. x_error ex = Some m \<and> m \<noteq> [] \<longrightarrow> error r' = Some m) \<and>
           (\<forall>v. x_executedPrice ex = Some v \<and> \<not> falsy v \<longrightarrow> executed_price r' = Some v) \<and>
           (\<forall>k p. (k, p) \<in> set (sends_of (drop (length (trace s))
                                   (trace (emitStatus oid st ex s)))) \<longrightarrow>
              ev_orderId p = oid \<and> ev_status p = status r' \<and>
              (\<forall>d. ev_dex p = Some d \<longrightarrow> dex r' = Some d) \<and>
              (\<forall>h. ev_txHash p = Some h \<and> h \<noteq> [] \<longrightarrow> tx_hash r' = Some h) \<and>
              (\<forall>m. ev_error p = Some m \<and> m \<noteq> [] \<longrightarrow> error r' = Some m) \<and>
              (\<forall>v. ev_executedPrice p = Some v \<and> \<not> falsy v \<longrightarrow>
                     executed_price r' = Some v))"
    by blast
qed

lemma falsy_2: "\<not> falsy (Finite 2)"
  by (simp add: falsy_def is_zero_def)

theorem emitStatus_persists_before_notify_witness:
  "trace (emitStatus ''o1'' confirmed extra0 state0) =
     [PgUpdate ''o1'' confirmed (Some raydium) (Some ''0xab'') None (Some (Finite 2)),
      WsSend 7 \<lparr>ev_orderId = ''o1'', ev_status = confirmed, ev_dex = Some raydium,
                ev_txHash = Some ''0xab'', ev_error = None,
                ev_executedPrice = Some (Finite 2), ev_timestamp = 250\<rparr>,
      RedisSRem ''o1'']
   \<and> ledger state0 ''o1'' = Some row0
   \<and> (\<exists>r'. ledger (emitStatus ''o1'' confirmed extra0 state0) ''o1'' = Some r' \<and>
        status r' = confirmed \<and> dex r' = Some raydium \<and> tx_hash r' = Some ''0xab'' \<and>
        executed_price r' = Some (Finite 2))"
  using emitStatus_persists_before_notify [of "''o1''" confirmed extra0 state0] falsy_2
  by (auto simp: state0_def extra0_def registered_def str_or_null_def num_or_null_def)

text \<open>
  C7 (amended): \<open>emitStatus\<close> adds and removes no row and touches no row but the one
  of its order identifier; in that row the type, the tokens, the amount and the creation
  time stay, every optional field missing from the call keeps its value, and what changes
  is the status, the fields supplied, and \<^verbatim>\<open>updated_at\<close>, which is set to the current
  time on every call.
\<close>

theorem emitStatus_frame:
  "dom (ledger (emitStatus oid st ex s)) = dom (ledger s)
   \<and> (\<forall>k. k \<noteq> oid \<longrightarrow> ledger (emitStatus oid st ex s) k = ledger s k)
   \<and> (\<forall>r. ledger s oid = Some r \<longrightarrow>
        (\<exists>r'. ledger (emitStatus oid st ex s) oid = Some r' \<and>
           type_col r' = type_col r \<and> token_in r' = token_in r \<and> token_out r' = token_out r \<and>
           amount_col r' = amount_col r \<and> created_at r' = created_at r \<and>
           status r' = st \<and> updated_at r' = clock s \<and>
           (x_dex ex = None \<longrightarrow> dex r' = dex r) \<and>
           (x_txHash ex = None \<longrightarrow> tx_hash r' = tx_hash r) \<and>
           (x_error ex = None \<longrightarrow> error r' = error r) \<and>
           (x_executedPrice ex = None \<longrightarrow> executed_price r' = executed_price r)))"
proof -
  have "dom (ledger (emitStatus oid st ex s)) = dom (ledger s)"
    by (auto simp: emitStatus_row dom_def split: option.splits if_splits)
  then show ?thesis
    by (simp add: emitStatus_row COALESCE_def str_or_null_def num_or_null_def)
qed

theorem emitStatus_frame_witness:
  "ledger state0 ''o1'' = Some row0
   \<and> (\<exists>r'. ledger (emitStatus ''o1'' routing no_extra state0) ''o1'' = Some r' \<and>
        type_col r' = ''market'' \<and> amount_col r' = 3 / 2 \<and> status r' = routing \<and>
        updated_at r' = 250 \<and> dex r' = None \<and> tx_hash r' = None \<and> error r' = None \<and>
        executed_price r' = None)
   \<and> ledger (emitStatus ''o1'' routing no_extra state0) ''o2'' = None"
  using emitStatus_frame [of "''o1''" routing no_extra state0]
  by (auto simp: state0_def row0_def no_extra_def)

text \<open>
  C7 as stated fails: \<^verbatim>\<open>updated_at\<close> is not supplied in the call and changes.
\<close>

theorem emitStatus_updated_at_counterexample:
  "updated_at (the (ledger (emitStatus ''o1'' routing no_extra state0) ''o1'')) \<noteq>
     updated_at (the (ledger state0 ''o1''))"
  by (simp add: emitStatus_row state0_def row0_def)

text \<open>
  C8 (amended): a status event is sent to exactly the sockets registered for the order
  whose \<^verbatim>\<open>readyState\<close> is 1, once each and in registration order; the other sockets are
  skipped and the registry is left as it is. A socket leaves the registry only through
  its own close listener, which also removes the order's entry when no socket is left.
\<close>

theorem publish_open_sockets_only:
  "sends_of (trace (emitStatus oid st ex s)) =
     sends_of (trace s) @
     map (\<lambda>k. (k, mk_payload oid st ex (clock s)))
       (filter (\<lambda>k. readyState s k = 1) (registered s oid))
   \<and> orderSockets (emitStatus oid st ex s) = orderSockets s
   \<and> registered (ws_on_close oid k s) oid = removeAll k (registered s oid)
   \<and> (removeAll k (registered s oid) = [] \<longrightarrow> orderSockets (ws_on_close oid k s) oid = None)
   \<and> (\<forall>o'. o' \<noteq> oid \<longrightarrow> orderSockets (ws_on_close oid k s) o' = orderSockets s o')"
  by (auto simp: emitStatus_trace sends_of_append sends_of_map_WsSend registered_def
      ws_on_close_def Let_def split: option.splits)

theorem publish_open_sockets_only_witness:
  "sends_of (trace (emitStatus ''o1'' routing no_extra state0)) =
     [(7, mk_payload ''o1'' routing no_extra 250)]
   \<and> registered (emitStatus ''o1'' routing no_extra state0) ''o1'' = [7, 8]
   \<and> registered (ws_on_close ''o1'' 8 state0) ''o1'' = [7]
   \<and> orderSockets (ws_on_close ''o1'' 7 (ws_on_close ''o1'' 8 state0)) ''o1'' = None"
  using publish_open_sockets_only [of "''o1''" routing no_extra state0 8]
    publish_open_sockets_only [of "''o1''" routing no_extra "ws_on_close ''o1'' 8 state0" 7]
  by (simp add: state0_def registered_def)

text \<open>
  C8 as stated fails: socket 8 is not open when the event is published, and it is still
  registered afterwards.
\<close>

theorem publish_keeps_closed_socket_counterexample:
  "readyState state0 8 \<noteq> 1 \<and>
   8 \<in> set (registered (emitStatus ''o1'' routing no_extra state0) ''o1'')"
  by (simp add: state0_def registered_def)

section \<open>The numbers of the examples\<close>

text \<open>
  The values of \<open>fl\<close> that the examples need, each obtained by running the definition:
  the exponent search, the division by the spacing and the rounding to even.
\<close>

lemmas fl_eval = fl_def exponent_def pow2_def round_even_def Let_def

lemma fl_values:
  "fl (1 / 500) = Finite (1152921504606847 / 576460752303423488)"
  "fl (3 / 1000) = Finite (3458764513820541 / 1152921504606846976)"
  "fl (5764607523034235 / 1152921504606846976) = Finite (5764607523034235 / 1152921504606846976)"
  "fl (9007199254741 / 1125899906842624) = Finite (9007199254741 / 1125899906842624)"
  "fl (1 / 100) = Finite (5764607523034235 / 576460752303423488)"
  "fl (45035996273705 / 4503599627370496) = Finite (45035996273705 / 4503599627370496)"
  "fl (27021597764223 / 2251799813685248) = Finite (27021597764223 / 2251799813685248)"
  "fl (5764607523034235 / 288230376151711744) = Finite (5764607523034235 / 288230376151711744)"
  "fl (3602879701896397 / 144115188075855872) = Finite (3602879701896397 / 144115188075855872)"
  "fl (1 / 25) = Finite (5764607523034235 / 144115188075855872)"
  "fl (1 / 20) = Finite (3602879701896397 / 72057594037927936)"
  "fl (69 / 100) = Finite (1553741871442821 / 2251799813685248)"
  "fl (3 / 4) = Finite (3 / 4)"
  "fl (4368491638549381 / 4503599627370496) = Finite (4368491638549381 / 4503599627370496)"
  "fl (97 / 100) = Finite (4368491638549381 / 4503599627370496)"
  "fl (2206763817411543 / 2251799813685248) = Finite (2206763817411543 / 2251799813685248)"
  "fl (49 / 50) = Finite (2206763817411543 / 2251799813685248)"
  "fl (20039426336599923196816157042205 / 20282409603651670423947251286016) = Finite (8899293007669195 / 9007199254740992)"
  "fl (99 / 100) = Finite (4458563631096791 / 4503599627370496)"
  "fl (143394612135476589 / 144115188075855872) = Finite (8962163258467287 / 9007199254740992)"
  "fl (199 / 200) = Finite (8962163258467287 / 9007199254740992)"
  "fl (8980177656976769 / 9007199254740992) = Finite (8980177656976769 / 9007199254740992)"
  "fl (1149462740093026435 / 1152921504606846976) = Finite (8980177656976769 / 9007199254740992)"
  "fl (575307830798816641 / 576460752303423488) = Finite (4494592428115755 / 4503599627370496)"
  "fl (288230376151711739 / 288230376151711744) = Finite 1"
  "fl (1152921504606846971 / 1152921504606846976) = Finite 1"
  "fl (126 / 125) = Finite (1134907106097365 / 1125899906842624)"
  "fl (101 / 100) = Finite (4548635623644201 / 4503599627370496)"
  "fl (253 / 250) = Finite (2278821411449471 / 2251799813685248)"
  "fl (3 / 2) = Finite (3 / 2)"
  "fl (16591228077569825241582295646385 / 10141204801825835211973625643008) = Finite (7367985367410157 / 4503599627370496)"
  "fl (16624477031633090682104365675289 / 10141204801825835211973625643008) = Finite (3691375434574227 / 2251799813685248)"
  "fl (66981903210422381286552923070535 / 40564819207303340847894502572032) = Finite (3718242558871231 / 2251799813685248)"
  "fl (8397931696391973722002033900467 / 5070602400912917605986812821504) = Finite (7458861702851015 / 4503599627370496)"
  "fl (34037674097282422941369175222035 / 20282409603651670423947251286016) = Finite (7557881897498047 / 4503599627370496)"
  "fl (7573027953404857 / 4503599627370496) = Finite (7573027953404857 / 4503599627370496)"
  "fl (34105885869020465173707241978803 / 20282409603651670423947251286016) = Finite (7573027953404857 / 4503599627370496)"
  "fl (34174440413480807878467122829061 / 20282409603651670423947251286016) = Finite (3794125060072685 / 2251799813685248)"
  "fl (3805541685128069 / 2251799813685248) = Finite (3805541685128069 / 2251799813685248)"
  "fl (63065997656534479228698686028723 / 633825300114114700748351602688) = Finite (3500866133462037 / 35184372088832)"
  "fl (31532998828267241439433092006255 / 316912650057057350374175801344) = Finite (7001732266924075 / 70368744177664)"
  "fl (997 / 10) = Finite (7015763794513101 / 70368744177664)"
  "fl (499 / 5) = Finite (7022800668930867 / 70368744177664)"
  by (simp_all add: fl_eval)

lemmas dbl_eval =
  lit_def dadd_def dsub_def dneg_def dmul_def ddiv_def dabs_def dgt_def val_def is_inf_def
  is_zero_def negative_def zero_of_def inf_of_def fl_values

text \<open>The literals of the source.\<close>

lemma allowedSlippage_value: "allowedSlippage = Finite (5764607523034235 / 576460752303423488)"
  by (simp add: allowedSlippage_def lit_def fl_values)

text \<open>The fixed routers: effective prices, venue, quote and relative slippage.\<close>

lemma fixed_router_quotes:
  "raydiumQuote (fixed_router rq mq r) job = rq"
  "meteoraQuote (fixed_router rq mq r) job = mq"
  by (simp_all add: raydiumQuote_def meteoraQuote_def fixed_router_def)

lemma fixed_router_swap:
  "swapResult (fixed_router rq mq r) job = \<lparr>txHash = ''0xabc'', executedPrice = r\<rparr>"
  by (simp add: swapResult_def fixed_router_def)

lemma unit_router_effective:
  "effectivePrice (raydiumQuote (unit_router r) job) = Finite (8980177656976769 / 9007199254740992)"
  "effectivePrice (meteoraQuote (unit_router r) job) = Finite (8899293007669195 / 9007199254740992)"
  by (simp_all add: unit_router_def fixed_router_quotes effectivePrice_def dbl_eval)

lemma unit_router_choice:
  "chosenDex (unit_router r) job = raydium"
  "quotedPrice (unit_router r) job = Finite 1"
  "swapResult (unit_router r) job = \<lparr>txHash = ''0xabc'', executedPrice = r\<rparr>"
proof -
  show c: "chosenDex (unit_router r) job = raydium"
    by (simp add: chosenDex_def bestDex_def unit_router_effective dgt_def val_def)
  then show "quotedPrice (unit_router r) job = Finite 1"
    by (simp add: quotedPrice_def bestQuote_def chosenDex_def)
      (simp add: unit_router_def fixed_router_quotes)
  show "swapResult (unit_router r) job = \<lparr>txHash = ''0xabc'', executedPrice = r\<rparr>"
    by (simp add: unit_router_def fixed_router_swap)
qed

lemma relativeDiff_unit:
  "relativeDiff slip_router job = Finite (27021597764223 / 2251799813685248)"
  "relativeDiff ok_router job = Finite (9007199254741 / 1125899906842624)"
  "relativeDiff edge_router job = Finite (45035996273705 / 4503599627370496)"
  by (simp_all add: relativeDiff_def slip_router_def ok_router_def edge_router_def
      unit_router_choice dbl_eval)

lemma slippage_unit:
  "dgt (relativeDiff slip_router job) allowedSlippage"
  "\<not> dgt (relativeDiff ok_router job) allowedSlippage"
  "dgt (relativeDiff edge_router job) allowedSlippage"
  by (simp_all add: relativeDiff_unit allowedSlippage_value dgt_def val_def)

declare decimal.simps [simp del]

lemma decimal_values:
  "decimal 0 = ''0''" "decimal 120 = ''120''" "decimal 100 = ''100''" "decimal 80 = ''80''"
  by (simp_all add: decimal.simps char_of_eq_iff)

lemma toFixed4_unit:
  "toFixed4 h (relativeDiff slip_router job) = ''0.0120''"
  "toFixed4 h (relativeDiff edge_router job) = ''0.0100''"
proof -
  have "\<lfloor>(27021597764223 / 2251799813685248 :: real) * 10000 + 1 / 2\<rfloor> = 120"
    "\<lfloor>(45035996273705 / 4503599627370496 :: real) * 10000 + 1 / 2\<rfloor> = 100"
    by (simp_all add: floor_eq_iff)
  then show "toFixed4 h (relativeDiff slip_router job) = ''0.0120''"
    "toFixed4 h (relativeDiff edge_router job) = ''0.0100''"
    by (simp_all add: relativeDiff_unit toFixed4_def Let_def decimal_values)
qed

lemma close_router_effective:
  "effectivePrice (raydiumQuote close_router job) = Finite (3500866133462037 / 35184372088832)"
  "effectivePrice (meteoraQuote close_router job) = Finite (7001732266924075 / 70368744177664)"
  by (simp_all add: close_router_def fixed_router_quotes effectivePrice_def dbl_eval)

lemma tie_router_effective:
  "effectivePrice (raydiumQuote tie_router job) = Finite (3 / 2)"
  "effectivePrice (meteoraQuote tie_router job) = Finite (3 / 2)"
  by (simp_all add: tie_router_def fixed_router_quotes effectivePrice_def dbl_eval)

text \<open>The router of the repository on the pair SOL / USDC, in the host of the examples.\<close>

lemma ascii_values:
  "ascii ''SOL'' = [83, 79, 76]" "ascii ''WSOL'' = [87, 83, 79, 76]"
  "ascii ''USDC'' = [85, 83, 68, 67]" "ascii ''-'' = [45]"
  "ascii ''SoL'' = [83, 111, 76]" "ascii ''sol'' = [115, 111, 108]"
  "ascii ''usdc'' = [117, 115, 100, 99]"
  by (simp_all add: ascii_def)

lemma normalizeToken_host0:
  "normalizeToken host0 (ascii ''SOL'') = ascii ''WSOL''"
  "normalizeToken host0 (ascii ''USDC'') = ascii ''USDC''"
  by (simp_all add: normalizeToken_def host0_def ascii_upper_def ascii_values)

lemma basePrice_WSOL_USDC: "basePrice (ascii ''WSOL'') (ascii ''USDC'') = Finite (3805541685128069 / 2251799813685248)"
proof -
  have "unat (pair_hash (ascii ''WSOL'' @ ascii ''-'' @ ascii ''USDC'')) mod 500 = 69"
    by (simp add: pair_hash_def ascii_values)
  then show ?thesis
    by (simp add: basePrice_def Let_def dbl_eval)
qed

lemma mock_first_quotes:
  assumes "tokenIn job = ascii ''SOL''" and "tokenOut job = ascii ''USDC''"
  shows "raydiumQuote mock_first job = \<lparr>price = Finite (3805541685128069 / 2251799813685248), fee = Finite (3458764513820541 / 1152921504606846976)\<rparr>"
    and "meteoraQuote mock_first job = \<lparr>price = Finite (3691375434574227 / 2251799813685248), fee = Finite (1152921504606847 / 576460752303423488)\<rparr>"
  using assms
  by (simp_all add: raydiumQuote_def meteoraQuote_def mock_first_def MockDexRouter_def
      getRaydiumQuote_def getMeteorQuote_def normalizeToken_host0 basePrice_WSOL_USDC Let_def
      dbl_eval)

lemma mock_later_quotes:
  assumes "tokenIn job = ascii ''SOL''" and "tokenOut job = ascii ''USDC''"
  shows "raydiumQuote mock_later job = \<lparr>price = Finite (7458861702851015 / 4503599627370496), fee = Finite (3458764513820541 / 1152921504606846976)\<rparr>"
    and "meteoraQuote mock_later job = \<lparr>price = Finite (7573027953404857 / 4503599627370496), fee = Finite (1152921504606847 / 576460752303423488)\<rparr>"
  using assms
  by (simp_all add: raydiumQuote_def meteoraQuote_def mock_later_def MockDexRouter_def
      getRaydiumQuote_def getMeteorQuote_def normalizeToken_host0 basePrice_WSOL_USDC Let_def
      dbl_eval)

lemma mock_choice:
  assumes "tokenIn job = ascii ''SOL''" and "tokenOut job = ascii ''USDC''"
  shows "chosenDex mock_first job = raydium" and "chosenDex mock_later job = meteora"
    and "quotedPrice mock_first job = Finite (3805541685128069 / 2251799813685248)"
  by (simp_all add: chosenDex_def quotedPrice_def bestQuote_def bestDex_def effectivePrice_def
      mock_first_quotes [OF assms] mock_later_quotes [OF assms] dbl_eval)

lemma txHash_uuid0: "generateMockTxHash uuid0 = ''0x123e4567e89b12d3a456426614174000''"
  by (simp add: generateMockTxHash_def uuid0_def)

lemma mock_first_swap:
  assumes "tokenIn job = ascii ''SOL''" and "tokenOut job = ascii ''USDC''"
  shows "swapResult mock_first job =
      \<lparr>txHash = ''0x123e4567e89b12d3a456426614174000'', executedPrice = Finite (3805541685128069 / 2251799813685248)\<rparr>"
    and "relativeDiff mock_first job = Finite 0"
proof -
  show s: "swapResult mock_first job =
      \<lparr>txHash = ''0x123e4567e89b12d3a456426614174000'', executedPrice = Finite (3805541685128069 / 2251799813685248)\<rparr>"
    unfolding swapResult_def mock_choice [OF assms]
    by (simp add: mock_first_def MockDexRouter_def executeSwap_def txHash_uuid0 Let_def
        dbl_eval)
  show "relativeDiff mock_first job = Finite 0"
    unfolding relativeDiff_def s mock_choice [OF assms]
    by (simp add: dbl_eval)
qed

section \<open>Token normalization and base price\<close>

text \<open>
  A quote depends on the two symbols only through their normalized forms, and the
  normalized form of a symbol is a function of its upper-case form.
\<close>

lemma normalizeToken_cong:
  "toUpperCase h a = toUpperCase h b \<Longrightarrow> normalizeToken h a = normalizeToken h b"
  by (simp add: normalizeToken_def)

lemma normalizeToken_SOL:
  assumes "toUpperCase h a = ascii ''SOL''" and "toUpperCase h (ascii ''WSOL'') = ascii ''WSOL''"
  shows "normalizeToken h a = normalizeToken h (ascii ''WSOL'')"
  using assms by (simp add: normalizeToken_def)

lemma normalizeToken_upper:
  "toUpperCase h (toUpperCase h a) = toUpperCase h a \<Longrightarrow>
     normalizeToken h (toUpperCase h a) = normalizeToken h a"
  by (simp add: normalizeToken_def)

text \<open>
  C9: both quote operations derive their base price from the normalized pair. Two pairs
  of symbols with the same upper-case forms (symbols that differ in letter case only)
  get the same quotes for the same random draw; so does a pair and its upper-case form,
  upper-casing being idempotent on it. A symbol whose upper-case form is \<open>SOL\<close> gets the
  quotes of \<open>WSOL\<close>, on either side of the pair. The price of a quote is the base price of
  the normalized pair times the venue's noise factor.
\<close>

theorem base_price_case_invariant:
  "(toUpperCase h a = toUpperCase h a' \<and> toUpperCase h b = toUpperCase h b' \<longrightarrow>
      getRaydiumQuote h rnd a b amt = getRaydiumQuote h rnd a' b' amt' \<and>
      getMeteorQuote h rnd a b amt = getMeteorQuote h rnd a' b' amt')
   \<and> (toUpperCase h (toUpperCase h a) = toUpperCase h a \<and>
       toUpperCase h (toUpperCase h b) = toUpperCase h b \<longrightarrow>
      getRaydiumQuote h rnd (toUpperCase h a) (toUpperCase h b) amt =
        getRaydiumQuote h rnd a b amt \<and>
      getMeteorQuote h rnd (toUpperCase h a) (toUpperCase h b) amt =
        getMeteorQuote h rnd a b amt)
   \<and> (toUpperCase h a = ascii ''SOL'' \<and> toUpperCase h (ascii ''WSOL'') = ascii ''WSOL'' \<longrightarrow>
        getRaydiumQuote h rnd a b amt = getRaydiumQuote h rnd (ascii ''WSOL'') b amt \<and>
        getMeteorQuote h rnd a b amt = getMeteorQuote h rnd (ascii ''WSOL'') b amt \<and>
        getRaydiumQuote h rnd b a amt = getRaydiumQuote h rnd b (ascii ''WSOL'') amt \<and>
        getMeteorQuote h rnd b a amt = getMeteorQuote h rnd b (ascii ''WSOL'') amt)
   \<and> price (getRaydiumQuote h rnd a b amt) =
        dmul (basePrice (normalizeToken h a) (normalizeToken h b))
          (dadd (lit (98 / 100)) (dmul rnd (lit (4 / 100))))
   \<and> price (getMeteorQuote h rnd a b amt) =
        dmul (basePrice (normalizeToken h a) (normalizeToken h b))
          (dadd (lit (97 / 100)) (dmul rnd (lit (5 / 100))))"
proof (intro conjI impI)
  assume "toUpperCase h a = toUpperCase h a' \<and> toUpperCase h b = toUpperCase h b'"
  then have n: "normalizeToken h a = normalizeToken h a'" "normalizeToken h b = normalizeToken h b'"
    by (blast intro: normalizeToken_cong)+
  show "getRaydiumQuote h rnd a b amt = getRaydiumQuote h rnd a' b' amt'"
    unfolding getRaydiumQuote_def n ..
  show "getMeteorQuote h rnd a b amt = getMeteorQuote h rnd a' b' amt'"
    unfolding getMeteorQuote_def n ..
next
  assume "toUpperCase h (toUpperCase h a) = toUpperCase h a \<and>
       toUpperCase h (toUpperCase h b) = toUpperCase h b"
  then have n: "normalizeToken h (toUpperCase h a) = normalizeToken h a"
    "normalizeToken h (toUpperCase h b) = normalizeToken h b"
    by (blast intro: normalizeToken_upper)+
  show "getRaydiumQuote h rnd (toUpperCase h a) (toUpperCase h b) amt =
        getRaydiumQuote h rnd a b amt"
    unfolding getRaydiumQuote_def n ..
  show "getMeteorQuote h rnd (toUpperCase h a) (toUpperCase h b) amt =
        getMeteorQuote h rnd a b amt"
    unfolding getMeteorQuote_def n ..
next
  assume "toUpperCase h a = ascii ''SOL'' \<and> toUpperCase h (ascii ''WSOL'') = ascii ''WSOL''"
  then have n: "normalizeToken h a = normalizeToken h (ascii ''WSOL'')"
    by (blast intro: normalizeToken_SOL)
  show "getRaydiumQuote h rnd a b amt = getRaydiumQuote h rnd (ascii ''WSOL'') b amt"
    unfolding getRaydiumQuote_def n ..
  show "getMeteorQuote h rnd a b amt = getMeteorQuote h rnd (ascii ''WSOL'') b amt"
    unfolding getMeteorQuote_def n ..
  show "getRaydiumQuote h rnd b a amt = getRaydiumQuote h rnd b (ascii ''WSOL'') amt"
    unfolding getRaydiumQuote_def n ..
  show "getMeteorQuote h rnd b a amt = getMeteorQuote h rnd b (ascii ''WSOL'') amt"
    unfolding getMeteorQuote_def n ..
next
  show "price (getRaydiumQuote h rnd a b amt) =
        dmul (basePrice (normalizeToken h a) (normalizeToken h b))
          (dadd (lit (98 / 100)) (dmul rnd (lit (4 / 100))))"
    by (simp add: getRaydiumQuote_def Let_def)
  show "price (getMeteorQuote h rnd a b amt) =
        dmul (basePrice (normalizeToken h a) (normalizeToken h b))
          (dadd (lit (97 / 100)) (dmul rnd (lit (5 / 100))))"
    by (simp add: getMeteorQuote_def Let_def)
qed

lemma upper_host0:
  "toUpperCase host0 (ascii ''SoL'') = ascii ''SOL''"
  "toUpperCase host0 (ascii ''sol'') = ascii ''SOL''"
  "toUpperCase host0 (ascii ''usdc'') = ascii ''USDC''"
  "toUpperCase host0 (ascii ''USDC'') = ascii ''USDC''"
  "toUpperCase host0 (ascii ''WSOL'') = ascii ''WSOL''"
  by (simp_all add: host0_def ascii_upper_def ascii_values)

theorem base_price_case_invariant_witness:
  "toUpperCase host0 (ascii ''SoL'') = toUpperCase host0 (ascii ''sol'')
   \<and> toUpperCase host0 (ascii ''usdc'') = toUpperCase host0 (ascii ''USDC'')
   \<and> toUpperCase host0 (ascii ''SoL'') = ascii ''SOL''
   \<and> toUpperCase host0 (ascii ''WSOL'') = ascii ''WSOL''
   \<and> getRaydiumQuote host0 (Finite (1 / 2)) (ascii ''SoL'') (ascii ''usdc'') 1 =
       getRaydiumQuote host0 (Finite (1 / 2)) (ascii ''sol'') (ascii ''USDC'') 2
   \<and> getMeteorQuote host0 (Finite (1 / 2)) (ascii ''SoL'') (ascii ''usdc'') 1 =
       getMeteorQuote host0 (Finite (1 / 2)) (ascii ''sol'') (ascii ''USDC'') 2
   \<and> getRaydiumQuote host0 (Finite (1 / 2)) (ascii ''SoL'') (ascii ''usdc'') 1 =
       getRaydiumQuote host0 (Finite (1 / 2)) (ascii ''WSOL'') (ascii ''usdc'') 1
   \<and> price (getRaydiumQuote host0 (Finite (1 / 2)) (ascii ''SoL'') (ascii ''usdc'') 1) =
       Finite (3805541685128069 / 2251799813685248)"
proof -
  note t = base_price_case_invariant [of host0 "ascii ''SoL''" "ascii ''sol''" "ascii ''usdc''"
      "ascii ''USDC''" "Finite (1 / 2)" 1 2]
  have h1: "toUpperCase host0 (ascii ''SoL'') = toUpperCase host0 (ascii ''sol'')"
    and h2: "toUpperCase host0 (ascii ''usdc'') = toUpperCase host0 (ascii ''USDC'')"
    and h3: "toUpperCase host0 (ascii ''SoL'') = ascii ''SOL''"
    and h4: "toUpperCase host0 (ascii ''WSOL'') = ascii ''WSOL''"
    by (simp_all only: upper_host0)
  have n: "normalizeToken host0 (ascii ''SoL'') = ascii ''WSOL''"
    "normalizeToken host0 (ascii ''usdc'') = ascii ''USDC''"
    by (simp_all add: normalizeToken_def upper_host0) (simp add: ascii_values)
  have "price (getRaydiumQuote host0 (Finite (1 / 2)) (ascii ''SoL'') (ascii ''usdc'') 1) =
      dmul (basePrice (normalizeToken host0 (ascii ''SoL'')) (normalizeToken host0 (ascii ''usdc'')))
        (dadd (lit (98 / 100)) (dmul (Finite (1 / 2)) (lit (4 / 100))))"
    using t by blast
  then have p: "price (getRaydiumQuote host0 (Finite (1 / 2)) (ascii ''SoL'') (ascii ''usdc'') 1) =
      Finite (3805541685128069 / 2251799813685248)"
    by (simp add: n basePrice_WSOL_USDC dbl_eval)
  from t h1 h2 h3 h4 p show ?thesis by blast
qed

section \<open>One attempt of the worker\<close>

text \<open>
  The worker, as written, is its result paired with its state operations applied in
  order; the same holds for a job under the retry policy. The statuses written to the
  ledger are those of the operations.
\<close>

lemma worker_split:
  "worker h rt job s = (worker_result h rt job, apply_actions (worker_actions rt job) s)"
  by (simp add: worker_def worker_result_def worker_actions_def Let_def relativeDiff_def
      swapResult_def quotedPrice_def chosenDex_def bestQuote_def bestDex_def effectivePrice_def
      raydiumQuote_def meteoraQuote_def slippage_message_def confirmed_extra_def sleep_def)

lemma apply_actions_append:
  "apply_actions (as @ bs) s = apply_actions bs (apply_actions as s)"
  by (induction as arbitrary: s) auto

lemma statuses_append: "statuses (as @ bs) = statuses as @ statuses bs"
  by (induction as rule: statuses.induct) auto

lemma on_failed_action: "on_failed (Some job) e s = apply_action (failed_action job e) s"
  by (simp add: on_failed_def failed_action_def)

lemma attempt_loop_actions:
  "snd (attempt_loop h left made rts job s) = apply_actions (job_actions h left made rts job) s"
proof (induction left arbitrary: made s)
  case 0
  show ?case
    by (cases "worker_result h (rts made) job")
      (simp_all add: worker_split apply_actions_append on_failed_action)
next
  case (Suc left)
  show ?case
    by (cases "worker_result h (rts made) job")
      (simp_all add: worker_split apply_actions_append on_failed_action Suc.IH)
qed

lemma updates_of_apply_action:
  "updates_of (trace (apply_action a s)) = updates_of (trace s) @ statuses [a]"
  by (cases a)
    (simp_all add: emitStatus_trace updates_of_append updates_of_map_WsSend sleep_def)

lemma updates_of_apply_actions:
  "updates_of (trace (apply_actions as s)) = updates_of (trace s) @ statuses as"
proof (induction as arbitrary: s)
  case Nil
  show ?case by simp
next
  case (Cons a as)
  have "statuses (a # as) = statuses [a] @ statuses as"
    by (cases a) simp_all
  then show ?case
    by (simp add: Cons.IH updates_of_apply_action)
qed

lemma ledger_sleep [simp]: "ledger (sleep ms s) = ledger s"
  by (simp add: sleep_def)

lemma ledger_apply_action_other:
  "ledger (apply_action a s) k = None \<longleftrightarrow> ledger s k = None"
  by (cases a) (simp_all add: emitStatus_row split: option.splits)

lemma worker_actions_dex_row:
  assumes "ledger s (orderId job) = Some r"
  shows "\<exists>r'. ledger (apply_actions (worker_actions rt job) s) (orderId job) = Some r' \<and>
           dex r' = Some (chosenDex rt job)"
  using assms
  by (simp add: worker_actions_def emitStatus_row COALESCE_def no_extra_def confirmed_extra_def)

text \<open>On finite doubles the comparison \<^verbatim>\<open>>\<close> is the order of their values.\<close>

lemma dgt_Finite: "dgt (Finite a) (Finite b) \<longleftrightarrow> b < a"
  by (simp add: dgt_def val_def)

text \<open>
  C2: the worker computes the effective price of each quote as the double product
  \<open>price * (1 - fee)\<close> and routes to Meteora when its effective price is strictly
  greater, and to Raydium when Raydium's is strictly greater, when both are equal, and
  whenever the comparison \<^verbatim>\<open>>\<close> is false. The venue is a function of the two quotes
  (\<open>bestDex\<close>); it is the venue the attempt writes to the ledger row and the venue it
  returns.
\<close>

theorem worker_routes_to_best_effective_price:
  "chosenDex rt job = bestDex (raydiumQuote rt job) (meteoraQuote rt job)
   \<and> effectivePrice (raydiumQuote rt job) =
       dmul (price (rt_getRaydiumQuote rt (tokenIn job) (tokenOut job) (amount job)))
         (dsub (Finite 1) (fee (rt_getRaydiumQuote rt (tokenIn job) (tokenOut job) (amount job))))
   \<and> effectivePrice (meteoraQuote rt job) =
       dmul (price (rt_getMeteorQuote rt (tokenIn job) (tokenOut job) (amount job)))
         (dsub (Finite 1) (fee (rt_getMeteorQuote rt (tokenIn job) (tokenOut job) (amount job))))
   \<and> (dgt (effectivePrice (meteoraQuote rt job)) (effectivePrice (raydiumQuote rt job)) \<longrightarrow>
        chosenDex rt job = meteora)
   \<and> (dgt (effectivePrice (raydiumQuote rt job)) (effectivePrice (meteoraQuote rt job)) \<longrightarrow>
        chosenDex rt job = raydium)
   \<and> (effectivePrice (meteoraQuote rt job) = effectivePrice (raydiumQuote rt job) \<longrightarrow>
        chosenDex rt job = raydium)
   \<and> (\<not> dgt (effectivePrice (meteoraQuote rt job)) (effectivePrice (raydiumQuote rt job)) \<longrightarrow>
        chosenDex rt job = raydium)
   \<and> (\<forall>r. ledger s (orderId job) = Some r \<longrightarrow>
        (\<exists>r'. ledger (snd (worker h rt job s)) (orderId job) = Some r' \<and>
              dex r' = Some (chosenDex rt job)))
   \<and> (\<forall>ret. fst (worker h rt job s) = Inr ret \<longrightarrow> ret_dex ret = chosenDex rt job)"
proof -
  have row: "\<forall>r. ledger s (orderId job) = Some r \<longrightarrow>
        (\<exists>r'. ledger (snd (worker h rt job s)) (orderId job) = Some r' \<and>
              dex r' = Some (chosenDex rt job))"
    by (simp add: worker_split worker_actions_dex_row)
  have ret: "\<forall>ret. fst (worker h rt job s) = Inr ret \<longrightarrow> ret_dex ret = chosenDex rt job"
    by (auto simp: worker_split worker_result_def split: if_splits)
  have asym: "\<not> dgt a b" if "dgt b a" for a b
    using that by (auto simp: dgt_def split: if_splits)
  have irrefl: "\<not> dgt a a" for a
    by (simp add: dgt_def)
  have sel: "(dgt (effectivePrice (meteoraQuote rt job)) (effectivePrice (raydiumQuote rt job)) \<longrightarrow>
        chosenDex rt job = meteora)
   \<and> (dgt (effectivePrice (raydiumQuote rt job)) (effectivePrice (meteoraQuote rt job)) \<longrightarrow>
        chosenDex rt job = raydium)
   \<and> (effectivePrice (meteoraQuote rt job) = effectivePrice (raydiumQuote rt job) \<longrightarrow>
        chosenDex rt job = raydium)
   \<and> (\<not> dgt (effectivePrice (meteoraQuote rt job)) (effectivePrice (raydiumQuote rt job)) \<longrightarrow>
        chosenDex rt job = raydium)"
    using asym [of "effectivePrice (meteoraQuote rt job)" "effectivePrice (raydiumQuote rt job)"]
      irrefl [of "effectivePrice (raydiumQuote rt job)"]
    by (auto simp: chosenDex_def bestDex_def)
  have eff: "effectivePrice (raydiumQuote rt job) =
       dmul (price (rt_getRaydiumQuote rt (tokenIn job) (tokenOut job) (amount job)))
         (dsub (Finite 1) (fee (rt_getRaydiumQuote rt (tokenIn job) (tokenOut job) (amount job))))"
    "effectivePrice (meteoraQuote rt job) =
       dmul (price (rt_getMeteorQuote rt (tokenIn job) (tokenOut job) (amount job)))
         (dsub (Finite 1) (fee (rt_getMeteorQuote rt (tokenIn job) (tokenOut job) (amount job))))"
    by (simp_all add: effectivePrice_def raydiumQuote_def meteoraQuote_def)
  have c: "chosenDex rt job = bestDex (raydiumQuote rt job) (meteoraQuote rt job)"
    by (simp add: chosenDex_def)
  from c row ret sel eff show ?thesis
    by blast
qed

text \<open>
  The witness routes two pairs of quotes. Raydium 99.8 with fee 0.003 against Meteora
  99.7 with fee 0.002: the exact products are equal, but the program's doubles are
  99.50059999999999 and 99.5006, and it routes to Meteora. Two equal quotes: Raydium.
\<close>

theorem worker_routes_to_best_effective_price_witness:
  "effectivePrice (raydiumQuote close_router job0) = Finite (3500866133462037 / 35184372088832)
   \<and> effectivePrice (meteoraQuote close_router job0) = Finite (7001732266924075 / 70368744177664)
   \<and> dgt (effectivePrice (meteoraQuote close_router job0))
        (effectivePrice (raydiumQuote close_router job0))
   \<and> chosenDex close_router job0 = meteora
   \<and> effectivePrice (meteoraQuote tie_router job0) = effectivePrice (raydiumQuote tie_router job0)
   \<and> chosenDex tie_router job0 = raydium
   \<and> ledger state0 (orderId job0) = Some row0
   \<and> (\<exists>r'. ledger (snd (worker host0 close_router job0 state0)) (orderId job0) = Some r'
         \<and> dex r' = Some meteora)"
proof -
  note t = worker_routes_to_best_effective_price [of close_router job0 state0 host0]
  note u = worker_routes_to_best_effective_price [of tie_router job0 state0 host0]
  have e: "effectivePrice (raydiumQuote close_router job0) =
      Finite (3500866133462037 / 35184372088832)"
    "effectivePrice (meteoraQuote close_router job0) = Finite (7001732266924075 / 70368744177664)"
    by (rule close_router_effective)+
  have gt: "dgt (effectivePrice (meteoraQuote close_router job0))
      (effectivePrice (raydiumQuote close_router job0))"
    by (simp add: e dgt_def val_def)
  with t have c: "chosenDex close_router job0 = meteora"
    by blast
  have eq: "effectivePrice (meteoraQuote tie_router job0) =
      effectivePrice (raydiumQuote tie_router job0)"
    by (simp add: tie_router_effective)
  with u have d: "chosenDex tie_router job0 = raydium"
    by blast
  have l: "ledger state0 (orderId job0) = Some row0"
    by (simp add: state0_def job0_def)
  with t c have "\<exists>r'. ledger (snd (worker host0 close_router job0 state0)) (orderId job0) = Some r'
         \<and> dex r' = Some meteora"
    by metis
  with e gt c eq d l show ?thesis by blast
qed

text \<open>
  C3: for a market order, with the quoted price \<open>q\<close> and the realized price \<open>r\<close>, the
  worker computes the relative slippage as the double \<open>|r - q| / q\<close>. When that value is
  greater than the tolerance (the double 0.01) the attempt throws the slippage error,
  after \<open>submitted\<close> and without emitting \<open>confirmed\<close>; otherwise it emits \<open>confirmed\<close>
  with the venue, the settlement id and the realized price, and returns them.
\<close>

theorem worker_slippage_check:
  assumes "otype job = ''market''"
  shows
    "relativeDiff rt job =
       ddiv (dabs (dsub (executedPrice (swapResult rt job)) (quotedPrice rt job)))
         (quotedPrice rt job)
     \<and> (dgt (relativeDiff rt job) (lit (1 / 100)) \<longrightarrow>
        worker h rt job s =
          (Inl (Error (''Slippage too high: '' @ toFixed4 h (relativeDiff rt job) @ '' > 0.01'')),
           apply_actions
             [Emit (orderId job) routing no_extra, Sleep (rt_quote_ms rt),
              Emit (orderId job) building (no_extra\<lparr>x_dex := Some (chosenDex rt job)\<rparr>),
              Emit (orderId job) submitted (no_extra\<lparr>x_dex := Some (chosenDex rt job)\<rparr>),
              Sleep (rt_swap_ms rt)] s))
     \<and> (\<not> dgt (relativeDiff rt job) (lit (1 / 100)) \<longrightarrow>
        worker h rt job s =
          (Inr \<lparr>ret_dex = chosenDex rt job, ret_txHash = txHash (swapResult rt job),
                ret_executedPrice = executedPrice (swapResult rt job)\<rparr>,
           apply_actions
             [Emit (orderId job) routing no_extra, Sleep (rt_quote_ms rt),
              Emit (orderId job) building (no_extra\<lparr>x_dex := Some (chosenDex rt job)\<rparr>),
              Emit (orderId job) submitted (no_extra\<lparr>x_dex := Some (chosenDex rt job)\<rparr>),
              Sleep (rt_swap_ms rt),
              Emit (orderId job) confirmed
                \<lparr>x_dex = Some (chosenDex rt job), x_txHash = Some (txHash (swapResult rt job)),
                 x_error = None,
                 x_executedPrice = Some (executedPrice (swapResult rt job))\<rparr>] s))"
  using assms
  by (simp add: worker_split worker_result_def worker_actions_def relativeDiff_def
      allowedSlippage_def slippage_message_def confirmed_extra_def)

text \<open>
  The witness runs the quote 1.000 against the realized prices 1.012 (thrown), 1.008
  (confirmed) and 1.01: there the double quotient is 0.010000000000000009, above the
  double 0.01, and the attempt throws with the message that prints 0.0100.
\<close>

lemma job0_fields: "otype job0 = ''market''" "orderId job0 = ''o1''"
  "tokenIn job0 = ascii ''SOL''" "tokenOut job0 = ascii ''USDC''"
  by (simp_all add: job0_def)

theorem worker_slippage_check_witness:
  "otype job0 = ''market''
   \<and> quotedPrice slip_router job0 = Finite 1
   \<and> executedPrice (swapResult slip_router job0) = lit (1012 / 1000)
   \<and> fst (worker host0 slip_router job0 state0) =
       Inl (Error ''Slippage too high: 0.0120 > 0.01'')
   \<and> updates_of (trace (snd (worker host0 slip_router job0 state0))) =
       [routing, building, submitted]
   \<and> executedPrice (swapResult ok_router job0) = lit (1008 / 1000)
   \<and> fst (worker host0 ok_router job0 state0) =
       Inr \<lparr>ret_dex = raydium, ret_txHash = ''0xabc'', ret_executedPrice = lit (1008 / 1000)\<rparr>
   \<and> updates_of (trace (snd (worker host0 ok_router job0 state0))) =
       [routing, building, submitted, confirmed]
   \<and> executedPrice (swapResult edge_router job0) = lit (101 / 100)
   \<and> relativeDiff edge_router job0 = Finite (45035996273705 / 4503599627370496)
   \<and> lit (1 / 100) = Finite (5764607523034235 / 576460752303423488)
   \<and> fst (worker host0 edge_router job0 state0) =
       Inl (Error ''Slippage too high: 0.0100 > 0.01'')"
proof -
  have m: "otype job0 = ''market''"
    by (rule job0_fields)
  have q: "quotedPrice slip_router job0 = Finite 1"
    by (simp add: slip_router_def unit_router_choice)
  have x: "executedPrice (swapResult slip_router job0) = lit (1012 / 1000)"
    "executedPrice (swapResult ok_router job0) = lit (1008 / 1000)"
    "executedPrice (swapResult edge_router job0) = lit (101 / 100)"
    by (simp_all only: slip_router_def ok_router_def edge_router_def unit_router_choice
        SwapResult.simps)
  have tol: "lit (1 / 100) = Finite (5764607523034235 / 576460752303423488)"
    using allowedSlippage_value by (simp add: allowedSlippage_def)
  have g: "dgt (relativeDiff slip_router job0) (lit (1 / 100))"
    "\<not> dgt (relativeDiff ok_router job0) (lit (1 / 100))"
    "dgt (relativeDiff edge_router job0) (lit (1 / 100))"
    using slippage_unit [of job0] by (simp_all add: allowedSlippage_def)
  have t0: "updates_of (trace state0) = []"
    by (simp add: state0_def)
  from worker_slippage_check [OF m, of slip_router host0 state0] g(1)
  have "worker host0 slip_router job0 state0 =
      (Inl (Error (''Slippage too high: '' @ toFixed4 host0 (relativeDiff slip_router job0) @
                   '' > 0.01'')),
       apply_actions
         [Emit (orderId job0) routing no_extra, Sleep (rt_quote_ms slip_router),
          Emit (orderId job0) building (no_extra\<lparr>x_dex := Some (chosenDex slip_router job0)\<rparr>),
          Emit (orderId job0) submitted (no_extra\<lparr>x_dex := Some (chosenDex slip_router job0)\<rparr>),
          Sleep (rt_swap_ms slip_router)] state0)"
    by blast
  then have a: "fst (worker host0 slip_router job0 state0) =
       Inl (Error ''Slippage too high: 0.0120 > 0.01'')"
    and b: "updates_of (trace (snd (worker host0 slip_router job0 state0))) =
       [routing, building, submitted]"
    by (simp_all add: toFixed4_unit updates_of_apply_actions t0 del: apply_actions.simps)
  from worker_slippage_check [OF m, of ok_router host0 state0] g(2)
  have "worker host0 ok_router job0 state0 =
      (Inr \<lparr>ret_dex = chosenDex ok_router job0, ret_txHash = txHash (swapResult ok_router job0),
            ret_executedPrice = executedPrice (swapResult ok_router job0)\<rparr>,
       apply_actions
         [Emit (orderId job0) routing no_extra, Sleep (rt_quote_ms ok_router),
          Emit (orderId job0) building (no_extra\<lparr>x_dex := Some (chosenDex ok_router job0)\<rparr>),
          Emit (orderId job0) submitted (no_extra\<lparr>x_dex := Some (chosenDex ok_router job0)\<rparr>),
          Sleep (rt_swap_ms ok_router),
          Emit (orderId job0) confirmed
            \<lparr>x_dex = Some (chosenDex ok_router job0),
             x_txHash = Some (txHash (swapResult ok_router job0)), x_error = None,
             x_executedPrice = Some (executedPrice (swapResult ok_router job0))\<rparr>] state0)"
    by blast
  then have c: "fst (worker host0 ok_router job0 state0) =
       Inr \<lparr>ret_dex = raydium, ret_txHash = ''0xabc'', ret_executedPrice = lit (1008 / 1000)\<rparr>"
    and d: "updates_of (trace (snd (worker host0 ok_router job0 state0))) =
       [routing, building, submitted, confirmed]"
    by (simp_all add: updates_of_apply_actions t0 x unit_router_choice ok_router_def
        del: apply_actions.simps)
  from worker_slippage_check [OF m, of edge_router host0 state0] g(3)
  have "fst (worker host0 edge_router job0 state0) =
      Inl (Error (''Slippage too high: '' @ toFixed4 host0 (relativeDiff edge_router job0) @
                   '' > 0.01''))"
    by simp
  then have e: "fst (worker host0 edge_router job0 state0) =
       Inl (Error ''Slippage too high: 0.0100 > 0.01'')"
    by (simp add: toFixed4_unit)
  have r: "relativeDiff edge_router job0 = Finite (45035996273705 / 4503599627370496)"
    by (rule relativeDiff_unit)
  from m q x a b c d e r tol show ?thesis by blast
qed

section \<open>Accepted orders\<close>

text \<open>
  The endpoint replies 200 exactly when it has inserted the row, added the order to
  \<^verbatim>\<open>active_orders\<close>, enqueued the job and emitted \<open>pending\<close>, in this order.
\<close>

lemma worker_result_market:
  "otype job = ''market'' \<Longrightarrow> worker_result h rt job \<noteq> Inl (Error ''Unsupported order type'')"
  by (simp add: worker_result_def slippage_message_def)

lemma post_execute_Reply200:
  assumes "post_execute uuid body s = (Reply200 oid, s')"
  shows "oid = uuid"
    and "ledger s uuid = None"
    and "\<exists>a. body_amount body = Some a \<and> 0 < a \<and>
          s' = emitStatus uuid pending no_extra
                 (queue_add \<lparr>orderId = uuid, tokenIn = body_tokenIn body,
                              tokenOut = body_tokenOut body, amount = a, otype = ''market''\<rparr>
                   (redis_sAdd uuid
                     (pg_insert uuid
                        \<lparr>type_col = ''market'', token_in = body_tokenIn body,
                         token_out = body_tokenOut body, amount_col = a, status = pending,
                         dex = None, tx_hash = None, error = None, executed_price = None,
                         created_at = clock s, updated_at = clock s\<rparr> s)))"
  using assms
  by (auto simp: post_execute_def Let_def split: option.splits if_splits)

lemma queue_emitStatus_chain:
  "queue (emitStatus oid st ex (queue_add job (redis_sAdd k (pg_insert k r s)))) = queue s @ [job]"
  by (simp add: queue_add_def redis_sAdd_def pg_insert_def)

lemma ledger_post_chain:
  "ledger (emitStatus k pending no_extra (queue_add job (redis_sAdd k (pg_insert k r s)))) k =
     Some (r\<lparr>status := pending, updated_at := clock s\<rparr>)"
  by (simp add: emitStatus_row queue_add_def redis_sAdd_def pg_insert_def COALESCE_def
      no_extra_def str_or_null_def num_or_null_def)

lemma trace_post_chain:
  "trace (emitStatus k pending no_extra (queue_add job (redis_sAdd k (pg_insert k r s)))) =
     trace s @
     [PgInsert k r, RedisSAdd k, QueueAdd job, PgUpdate k pending None None None None] @
     map (\<lambda>x. WsSend x (mk_payload k pending no_extra (clock s)))
       (filter (\<lambda>x. readyState s x = 1) (registered s k))"
  by (simp add: emitStatus_trace queue_add_def redis_sAdd_def pg_insert_def registered_def
      no_extra_def str_or_null_def num_or_null_def)

text \<open>
  C10: an order accepted by \<^verbatim>\<open>POST /api/orders/execute\<close> is stored and enqueued with
  the type \<open>market\<close>, whatever the request body carries as its type; for the job it
  enqueues, no attempt of the worker, with any router and in any state, throws the
  unsupported-type error.
\<close>

theorem post_execute_always_market:
  assumes "post_execute uuid body s = (Reply200 oid, s')"
  shows "oid = uuid
    \<and> (\<exists>job. queue s' = queue s @ [job] \<and> orderId job = oid \<and> otype job = ''market'' \<and>
          (\<forall>h rt st. fst (worker h rt job st) \<noteq> Inl (Error ''Unsupported order type'')))
    \<and> (\<exists>r. ledger s' oid = Some r \<and> type_col r = ''market'')"
proof -
  from post_execute_Reply200 [OF assms] obtain a where
    o: "oid = uuid" and
    s': "s' = emitStatus uuid pending no_extra
                 (queue_add \<lparr>orderId = uuid, tokenIn = body_tokenIn body,
                              tokenOut = body_tokenOut body, amount = a, otype = ''market''\<rparr>
                   (redis_sAdd uuid
                     (pg_insert uuid
                        \<lparr>type_col = ''market'', token_in = body_tokenIn body,
                         token_out = body_tokenOut body, amount_col = a, status = pending,
                         dex = None, tx_hash = None, error = None, executed_price = None,
                         created_at = clock s, updated_at = clock s\<rparr> s)))"
    by blast
  let ?job = "\<lparr>orderId = uuid, tokenIn = body_tokenIn body,
                 tokenOut = body_tokenOut body, amount = a, otype = ''market''\<rparr>"
  have q: "queue s' = queue s @ [?job]"
    unfolding s' by (rule queue_emitStatus_chain)
  have w: "\<forall>h rt st. fst (worker h rt ?job st) \<noteq> Inl (Error ''Unsupported order type'')"
    by (simp add: worker_split worker_result_market)
  have l: "\<exists>r. ledger s' oid = Some r \<and> type_col r = ''market''"
    unfolding s' o by (simp add: ledger_post_chain)
  have j: "orderId ?job = oid" "otype ?job = ''market''"
    by (simp_all add: o)
  from o q w l j show ?thesis by blast
qed

lemma post_execute_body0:
  "post_execute ''o1'' body0 empty_state =
     (Reply200 ''o1'',
      emitStatus ''o1'' pending no_extra
        (queue_add job0
          (redis_sAdd ''o1''
            (pg_insert ''o1'' (row0\<lparr>created_at := 0, updated_at := 0\<rparr>) empty_state))))"
  by (simp add: post_execute_def body0_def empty_state_def Let_def job0_def row0_def ascii_def)

theorem post_execute_always_market_witness:
  "body_type body0 = Some ''limit''
   \<and> fst (post_execute ''o1'' body0 empty_state) = Reply200 ''o1''
   \<and> (\<exists>job. queue (snd (post_execute ''o1'' body0 empty_state)) = [job] \<and>
         otype job = ''market'')
   \<and> (\<exists>r. ledger (snd (post_execute ''o1'' body0 empty_state)) ''o1'' = Some r \<and>
         type_col r = ''market'')"
proof -
  have b: "body_type body0 = Some ''limit''"
    by (simp add: body0_def)
  have p: "post_execute ''o1'' body0 empty_state =
      (Reply200 ''o1'', snd (post_execute ''o1'' body0 empty_state))"
    by (simp add: post_execute_body0)
  have e: "queue empty_state = []"
    by (simp add: empty_state_def)
  from post_execute_always_market [OF p] b p e show ?thesis
    by (metis append_Nil fst_conv)
qed

section \<open>Retries\<close>

text \<open>
  The statuses that one attempt writes, and those of a job under the retry policy: the
  statuses of its attempts one after the other, with a \<open>failed\<close> after each attempt that
  throws.
\<close>

lemma statuses_worker_actions:
  "statuses (worker_actions rt job) =
     (if otype job \<noteq> ''market'' then [routing, building]
      else if dgt (relativeDiff rt job) allowedSlippage then [routing, building, submitted]
      else [routing, building, submitted, confirmed])"
  by (simp add: worker_actions_def)

lemma failed_notin_worker_actions:
  "removeAll failed (statuses (worker_actions rt job)) = statuses (worker_actions rt job)"
  by (simp add: statuses_worker_actions)

lemma statuses_failed_action: "statuses (failed_action job e # as) = failed # statuses as"
  by (simp add: failed_action_def)

lemma attempts_pred: "attempts - Suc 0 = Suc (Suc 0)"
  by (simp add: attempts_def)

lemma run_job_actions:
  "snd (run_job h rts job s) = apply_actions (job_actions h (Suc (Suc 0)) 0 rts job) s"
  by (simp only: run_job_def attempts_pred One_nat_def attempt_loop_actions)

lemma last_attempt_ge: "made \<le> last_attempt h left made rts job"
proof (induction left arbitrary: made)
  case 0
  show ?case by simp
next
  case (Suc left)
  show ?case
    using Suc.IH [of "Suc made"]
    by (cases "worker_result h (rts made) job") simp_all
qed

lemma job_statuses_concat:
  "removeAll failed (statuses (job_actions h left made rts job)) =
     concat (map (\<lambda>n. statuses (worker_actions (rts n) job))
       [made..<Suc (last_attempt h left made rts job)])"
proof (induction left arbitrary: made)
  case 0
  show ?case
    by (cases "worker_result h (rts made) job")
      (simp_all add: statuses_append failed_notin_worker_actions statuses_failed_action)
next
  case (Suc left)
  show ?case
  proof (cases "worker_result h (rts made) job")
    case (Inr ret)
    then show ?thesis
      by (simp add: failed_notin_worker_actions)
  next
    case (Inl e)
    have "made < Suc (last_attempt h left (Suc made) rts job)"
      using last_attempt_ge [of "Suc made" h left rts job] by simp
    then have u: "[made..<Suc (last_attempt h left (Suc made) rts job)] =
        made # [Suc made..<Suc (last_attempt h left (Suc made) rts job)]"
      by (rule upt_conv_Cons)
    have "removeAll failed (statuses (job_actions h (Suc left) made rts job)) =
        statuses (worker_actions (rts made) job) @
        removeAll failed (statuses (job_actions h left (Suc made) rts job))"
      using Inl
      by (simp add: statuses_append failed_notin_worker_actions statuses_failed_action)
    also have "\<dots> = concat (map (\<lambda>n. statuses (worker_actions (rts n) job))
        (made # [Suc made..<Suc (last_attempt h left (Suc made) rts job)]))"
      by (simp only: Suc.IH list.map concat.simps)
    finally show ?thesis
      using Inl by (simp only: last_attempt.simps sum.case u)
  qed
qed

lemma job_actions_exhausted:
  assumes "worker_result h (rts 0) job = Inl e0"
    and "worker_result h (rts (Suc 0)) job = Inl e1"
    and "worker_result h (rts (Suc (Suc 0))) job = Inl e2"
  shows "job_actions h (Suc (Suc 0)) 0 rts job =
      worker_actions (rts 0) job @ [failed_action job e0, Sleep 500] @
      worker_actions (rts (Suc 0)) job @ [failed_action job e1, Sleep 1000] @
      worker_actions (rts (Suc (Suc 0))) job @ [failed_action job e2]"
  using assms by (simp add: backoff_delay_def)

lemma run_job_exhausted:
  assumes "worker_result h (rts 0) job = Inl e0"
    and "worker_result h (rts (Suc 0)) job = Inl e1"
    and "worker_result h (rts (Suc (Suc 0))) job = Inl e2"
  shows "fst (run_job h rts job s) = Exhausted e2"
  using assms by (simp add: run_job_def attempts_pred worker_split)

text \<open>The examples: the attempts at \<open>job0\<close> and at \<open>limit_job\<close>.\<close>

lemma limit_job_fields: "otype limit_job = ''limit''" "orderId limit_job = ''o1''"
  "tokenIn limit_job = ascii ''SOL''" "tokenOut limit_job = ascii ''USDC''"
  by (simp_all add: limit_job_def job0_def)

lemma mock_draws_simps:
  "mock_draws 0 = mock_first" "mock_draws (Suc n) = mock_later"
  by (simp_all add: mock_draws_def)

lemma mock_ms: "rt_quote_ms mock_first = 300" "rt_quote_ms mock_later = 300"
  "rt_swap_ms mock_first = 2500"
  by (simp_all add: mock_first_def mock_later_def MockDexRouter_def)

lemma worker_result_limit:
  "worker_result h rt limit_job = Inl (Error ''Unsupported order type'')"
  by (simp add: worker_result_def limit_job_fields)

lemma worker_actions_limit:
  "worker_actions mock_first limit_job =
     [Emit ''o1'' routing no_extra, Sleep 300,
      Emit ''o1'' building (no_extra\<lparr>x_dex := Some raydium\<rparr>)]"
  "worker_actions mock_later limit_job =
     [Emit ''o1'' routing no_extra, Sleep 300,
      Emit ''o1'' building (no_extra\<lparr>x_dex := Some meteora\<rparr>)]"
  by (simp_all add: worker_actions_def limit_job_fields mock_ms
      mock_choice [OF limit_job_fields(3,4)])

lemma job_actions_limit:
  "job_actions host0 (Suc (Suc 0)) 0 mock_draws limit_job =
     worker_actions mock_first limit_job @
     [failed_action limit_job (Error ''Unsupported order type''), Sleep 500] @
     worker_actions mock_later limit_job @
     [failed_action limit_job (Error ''Unsupported order type''), Sleep 1000] @
     worker_actions mock_later limit_job @
     [failed_action limit_job (Error ''Unsupported order type'')]"
  using job_actions_exhausted [of host0 mock_draws limit_job, OF worker_result_limit
      worker_result_limit worker_result_limit]
  by (simp only: mock_draws_simps)

lemma statuses_limit:
  "statuses (job_actions host0 (Suc (Suc 0)) 0 mock_draws limit_job) =
     [routing, building, failed, routing, building, failed, routing, building, failed]"
  by (simp only: job_actions_limit statuses_append statuses_worker_actions limit_job_fields
      statuses_failed_action) (simp add: failed_action_def)

lemma state0_trace: "updates_of (trace state0) = []"
  by (simp add: state0_def)

lemma worker_result_slip:
  "worker_result host0 slip_router job0 = Inl (Error ''Slippage too high: 0.0120 > 0.01'')"
  by (simp add: worker_result_def job0_fields slippage_unit slippage_message_def toFixed4_unit)

lemma worker_result_mock_first:
  "worker_result host0 mock_first job0 =
     Inr \<lparr>ret_dex = raydium, ret_txHash = ''0x123e4567e89b12d3a456426614174000'',
          ret_executedPrice = Finite (3805541685128069 / 2251799813685248)\<rparr>"
  by (simp add: worker_result_def job0_fields mock_first_swap [OF job0_fields(3,4)]
      mock_choice [OF job0_fields(3,4)] allowedSlippage_value dgt_def val_def)

text \<open>
  C1 (amended): one attempt writes a prefix of \<open>routing, building, submitted, confirmed\<close>,
  in this order and with no status twice: \<open>routing, building\<close> when the order type is not
  \<open>market\<close>, where it throws the unsupported-type error; \<open>routing, building, submitted\<close>
  when the relative slippage is above the tolerance, where it throws the slippage error;
  all four when it returns. The endpoint writes \<open>pending\<close> once, after it has enqueued the
  job. The statuses that a job writes under the retry policy, the \<open>failed\<close> entries of
  the listener apart, are those of its attempts one after the other, from the first
  attempt to the one at which the job stops.
\<close>

theorem attempt_status_sequence:
  "(otype job \<noteq> ''market'' \<longrightarrow>
      fst (worker h rt job s) = Inl (Error ''Unsupported order type'') \<and>
      updates_of (trace (snd (worker h rt job s))) = updates_of (trace s) @ [routing, building])
   \<and> (otype job = ''market'' \<and> dgt (relativeDiff rt job) (lit (1 / 100)) \<longrightarrow>
      fst (worker h rt job s) =
        Inl (Error (''Slippage too high: '' @ toFixed4 h (relativeDiff rt job) @ '' > 0.01'')) \<and>
      updates_of (trace (snd (worker h rt job s))) =
        updates_of (trace s) @ [routing, building, submitted])
   \<and> (otype job = ''market'' \<and> \<not> dgt (relativeDiff rt job) (lit (1 / 100)) \<longrightarrow>
      fst (worker h rt job s) =
        Inr \<lparr>ret_dex = chosenDex rt job, ret_txHash = txHash (swapResult rt job),
             ret_executedPrice = executedPrice (swapResult rt job)\<rparr> \<and>
      updates_of (trace (snd (worker h rt job s))) =
        updates_of (trace s) @ [routing, building, submitted, confirmed])
   \<and> updates_of (trace (snd (worker h rt job s))) =
       updates_of (trace s) @ statuses (worker_actions rt job)
   \<and> (\<forall>oid s0 s1. post_execute uuid body s0 = (Reply200 oid, s1) \<longrightarrow>
        (\<exists>job1 row.
           trace s1 =
             trace s0 @
             [PgInsert oid row, RedisSAdd oid, QueueAdd job1,
              PgUpdate oid pending None None None None] @
             map (\<lambda>k. WsSend k (mk_payload oid pending no_extra (clock s0)))
               (filter (\<lambda>k. readyState s0 k = 1) (registered s0 oid)) \<and>
           queue s1 = queue s0 @ [job1] \<and> orderId job1 = oid \<and>
           updates_of (trace s1) = updates_of (trace s0) @ [pending]))
   \<and> updates_of (trace (snd (run_job h rts job s))) =
       updates_of (trace s) @ statuses (job_actions h (attempts - 1) 0 rts job)
   \<and> removeAll failed (statuses (job_actions h (attempts - 1) 0 rts job)) =
       concat (map (\<lambda>n. statuses (worker_actions (rts n) job))
         [0..<Suc (last_attempt h (attempts - 1) 0 rts job)])"
proof -
  have link: "updates_of (trace (snd (worker h rt job s))) =
       updates_of (trace s) @ statuses (worker_actions rt job)"
    by (simp add: worker_split updates_of_apply_actions)
  have a: "otype job \<noteq> ''market'' \<longrightarrow>
      fst (worker h rt job s) = Inl (Error ''Unsupported order type'') \<and>
      updates_of (trace (snd (worker h rt job s))) = updates_of (trace s) @ [routing, building]"
    unfolding link by (simp add: worker_split worker_result_def statuses_worker_actions)
  have b: "otype job = ''market'' \<and> dgt (relativeDiff rt job) (lit (1 / 100)) \<longrightarrow>
      fst (worker h rt job s) =
        Inl (Error (''Slippage too high: '' @ toFixed4 h (relativeDiff rt job) @ '' > 0.01'')) \<and>
      updates_of (trace (snd (worker h rt job s))) =
        updates_of (trace s) @ [routing, building, submitted]"
    unfolding link
    by (simp add: worker_split worker_result_def statuses_worker_actions allowedSlippage_def
        slippage_message_def)
  have c: "otype job = ''market'' \<and> \<not> dgt (relativeDiff rt job) (lit (1 / 100)) \<longrightarrow>
      fst (worker h rt job s) =
        Inr \<lparr>ret_dex = chosenDex rt job, ret_txHash = txHash (swapResult rt job),
             ret_executedPrice = executedPrice (swapResult rt job)\<rparr> \<and>
      updates_of (trace (snd (worker h rt job s))) =
        updates_of (trace s) @ [routing, building, submitted, confirmed]"
    unfolding link
    by (simp add: worker_split worker_result_def statuses_worker_actions allowedSlippage_def)
  have d: "\<forall>oid s0 s1. post_execute uuid body s0 = (Reply200 oid, s1) \<longrightarrow>
        (\<exists>job1 row.
           trace s1 =
             trace s0 @
             [PgInsert oid row, RedisSAdd oid, QueueAdd job1,
              PgUpdate oid pending None None None None] @
             map (\<lambda>k. WsSend k (mk_payload oid pending no_extra (clock s0)))
               (filter (\<lambda>k. readyState s0 k = 1) (registered s0 oid)) \<and>
           queue s1 = queue s0 @ [job1] \<and> orderId job1 = oid \<and>
           updates_of (trace s1) = updates_of (trace s0) @ [pending])"
  proof (intro allI impI)
    fix oid s0 s1
    assume p: "post_execute uuid body s0 = (Reply200 oid, s1)"
    from post_execute_Reply200 [OF p] obtain a where
      o: "oid = uuid" and
      s1: "s1 = emitStatus uuid pending no_extra
                 (queue_add \<lparr>orderId = uuid, tokenIn = body_tokenIn body,
                              tokenOut = body_tokenOut body, amount = a, otype = ''market''\<rparr>
                   (redis_sAdd uuid
                     (pg_insert uuid
                        \<lparr>type_col = ''market'', token_in = body_tokenIn body,
                         token_out = body_tokenOut body, amount_col = a, status = pending,
                         dex = None, tx_hash = None, error = None, executed_price = None,
                         created_at = clock s0, updated_at = clock s0\<rparr> s0)))"
      by blast
    let ?job = "\<lparr>orderId = uuid, tokenIn = body_tokenIn body,
                   tokenOut = body_tokenOut body, amount = a, otype = ''market''\<rparr>"
    let ?row = "\<lparr>type_col = ''market'', token_in = body_tokenIn body,
                   token_out = body_tokenOut body, amount_col = a, status = pending,
                   dex = None, tx_hash = None, error = None, executed_price = None,
                   created_at = clock s0, updated_at = clock s0\<rparr>"
    have t: "trace s1 =
             trace s0 @
             [PgInsert oid ?row, RedisSAdd oid, QueueAdd ?job,
              PgUpdate oid pending None None None None] @
             map (\<lambda>k. WsSend k (mk_payload oid pending no_extra (clock s0)))
               (filter (\<lambda>k. readyState s0 k = 1) (registered s0 oid))"
      unfolding s1 o by (rule trace_post_chain)
    have q: "queue s1 = queue s0 @ [?job]"
      unfolding s1 by (rule queue_emitStatus_chain)
    have u: "updates_of (trace s1) = updates_of (trace s0) @ [pending]"
      unfolding t by (simp add: updates_of_append updates_of_map_WsSend)
    have "orderId ?job = oid"
      by (simp add: o)
    with t q u show "\<exists>job1 row.
           trace s1 =
             trace s0 @
             [PgInsert oid row, RedisSAdd oid, QueueAdd job1,
              PgUpdate oid pending None None None None] @
             map (\<lambda>k. WsSend k (mk_payload oid pending no_extra (clock s0)))
               (filter (\<lambda>k. readyState s0 k = 1) (registered s0 oid)) \<and>
           queue s1 = queue s0 @ [job1] \<and> orderId job1 = oid \<and>
           updates_of (trace s1) = updates_of (trace s0) @ [pending]"
      by blast
  qed
  have e: "updates_of (trace (snd (run_job h rts job s))) =
       updates_of (trace s) @ statuses (job_actions h (attempts - 1) 0 rts job)"
    by (simp add: run_job_def attempt_loop_actions updates_of_apply_actions)
  have f: "removeAll failed (statuses (job_actions h (attempts - 1) 0 rts job)) =
       concat (map (\<lambda>n. statuses (worker_actions (rts n) job))
         [0..<Suc (last_attempt h (attempts - 1) 0 rts job)])"
    by (rule job_statuses_concat)
  from a b c link d e f show ?thesis
    by blast
qed

text \<open>
  The witness runs one attempt at an order of type \<open>limit\<close>, one at a market order that
  settles 1.2 percent off its quote and one at a market order with the router of the
  repository, accepts an order at the endpoint, and runs the market order as a job.
\<close>

theorem attempt_status_sequence_witness:
  "otype limit_job \<noteq> ''market''
   \<and> fst (worker host0 mock_first limit_job state0) = Inl (Error ''Unsupported order type'')
   \<and> updates_of (trace (snd (worker host0 mock_first limit_job state0))) = [routing, building]
   \<and> otype job0 = ''market''
   \<and> dgt (relativeDiff slip_router job0) (lit (1 / 100))
   \<and> fst (worker host0 slip_router job0 state0) =
       Inl (Error ''Slippage too high: 0.0120 > 0.01'')
   \<and> updates_of (trace (snd (worker host0 slip_router job0 state0))) =
       [routing, building, submitted]
   \<and> \<not> dgt (relativeDiff mock_first job0) (lit (1 / 100))
   \<and> fst (worker host0 mock_first job0 state0) =
       Inr \<lparr>ret_dex = raydium, ret_txHash = ''0x123e4567e89b12d3a456426614174000'',
            ret_executedPrice = Finite (3805541685128069 / 2251799813685248)\<rparr>
   \<and> updates_of (trace (snd (worker host0 mock_first job0 state0))) =
       [routing, building, submitted, confirmed]
   \<and> fst (post_execute ''o1'' body0 empty_state) = Reply200 ''o1''
   \<and> updates_of (trace (snd (post_execute ''o1'' body0 empty_state))) = [pending]
   \<and> queue (snd (post_execute ''o1'' body0 empty_state)) = [job0]
   \<and> updates_of (trace (snd (run_job host0 mock_draws job0 state0))) =
       [routing, building, submitted, confirmed]"
proof -
  note l = attempt_status_sequence [of limit_job host0 mock_first state0 "''o1''" body0 mock_draws]
  note m = attempt_status_sequence [of job0 host0 slip_router state0 "''o1''" body0 mock_draws]
  note n = attempt_status_sequence [of job0 host0 mock_first state0 "''o1''" body0 mock_draws]
  have h1: "otype limit_job \<noteq> ''market''"
    by (simp add: limit_job_fields)
  have h2: "otype job0 = ''market''"
    by (rule job0_fields)
  have h3: "dgt (relativeDiff slip_router job0) (lit (1 / 100))"
    using slippage_unit(1) [of job0] by (simp add: allowedSlippage_def)
  have h4: "\<not> dgt (relativeDiff mock_first job0) (lit (1 / 100))"
    using allowedSlippage_value
    by (simp add: mock_first_swap [OF job0_fields(3,4)] allowedSlippage_def dgt_def val_def)
  have p: "post_execute ''o1'' body0 empty_state =
      (Reply200 ''o1'', snd (post_execute ''o1'' body0 empty_state))"
    by (simp add: post_execute_body0)
  have e: "queue empty_state = []" "updates_of (trace empty_state) = []"
    by (simp_all add: empty_state_def)
  from l h1 have a: "fst (worker host0 mock_first limit_job state0) =
      Inl (Error ''Unsupported order type'')"
    "updates_of (trace (snd (worker host0 mock_first limit_job state0))) = [routing, building]"
    by (simp_all add: state0_trace)
  from m h2 h3 have b: "fst (worker host0 slip_router job0 state0) =
      Inl (Error ''Slippage too high: 0.0120 > 0.01'')"
    "updates_of (trace (snd (worker host0 slip_router job0 state0))) =
      [routing, building, submitted]"
    by (simp_all add: state0_trace toFixed4_unit)
  from n h2 h4 have c: "fst (worker host0 mock_first job0 state0) =
       Inr \<lparr>ret_dex = raydium, ret_txHash = ''0x123e4567e89b12d3a456426614174000'',
            ret_executedPrice = Finite (3805541685128069 / 2251799813685248)\<rparr>"
    "updates_of (trace (snd (worker host0 mock_first job0 state0))) =
       [routing, building, submitted, confirmed]"
    by (simp_all add: state0_trace mock_first_swap [OF job0_fields(3,4)]
        mock_choice [OF job0_fields(3,4)])
  from n p have d: "updates_of (trace (snd (post_execute ''o1'' body0 empty_state))) = [pending]"
    using e by (metis append_Nil)
  have q: "queue (snd (post_execute ''o1'' body0 empty_state)) = [job0]"
    by (simp add: post_execute_body0 queue_add_def redis_sAdd_def pg_insert_def e)
  have "job_actions host0 (attempts - 1) 0 mock_draws job0 = worker_actions mock_first job0"
    by (simp add: attempts_pred mock_draws_simps worker_result_mock_first)
  with n c(2) have r: "updates_of (trace (snd (run_job host0 mock_draws job0 state0))) =
       [routing, building, submitted, confirmed]"
    by simp
  have p1: "fst (post_execute ''o1'' body0 empty_state) = Reply200 ''o1''"
    by (simp add: post_execute_body0)
  from h1 h2 h3 h4 a b c d q r p1 show ?thesis
    by simp
qed

text \<open>
  C1 as stated fails: a retried attempt starts again at \<open>routing\<close>. An order of type
  \<open>limit\<close> is run three times with the router of the repository; each attempt writes
  \<open>routing, building\<close>, so these statuses repeat over the lifetime of the order, and the
  sequence is not a lifecycle of the specification, with or without the \<open>failed\<close>
  entries that the listener writes between the attempts.
\<close>

theorem retry_repeats_statuses_counterexample:
  "updates_of (trace (snd (run_job host0 mock_draws limit_job state0))) =
     [routing, building, failed, routing, building, failed, routing, building, failed]
   \<and> \<not> distinct (updates_of (trace (snd (run_job host0 mock_draws limit_job state0))))
   \<and> \<not> lifecycle_ok (updates_of (trace (snd (run_job host0 mock_draws limit_job state0))))
   \<and> removeAll failed (updates_of (trace (snd (run_job host0 mock_draws limit_job state0)))) =
       [routing, building, routing, building, routing, building]
   \<and> \<not> distinct
         (removeAll failed (updates_of (trace (snd (run_job host0 mock_draws limit_job state0)))))
   \<and> \<not> lifecycle_ok
         (pending #
          removeAll failed (updates_of (trace (snd (run_job host0 mock_draws limit_job state0)))))"
proof -
  have u: "updates_of (trace (snd (run_job host0 mock_draws limit_job state0))) =
     [routing, building, failed, routing, building, failed, routing, building, failed]"
    by (simp only: run_job_actions updates_of_apply_actions state0_trace statuses_limit
        append_Nil)
  show ?thesis
    unfolding u by (simp add: lifecycle_ok_def)
qed

text \<open>
  C4, evaluated on jobs whose attempts all throw, a market order that settles 1.2 percent
  off its quote and an order of type \<open>limit\<close> with the router of the repository: the job
  is run three times, with a wait of 500 ms and then 1000 ms between the attempts, and it
  ends exhausted with the last error; but the \<open>failed\<close> listener runs after each of the
  three attempts, so \<open>failed\<close> is written and sent after the first and the second attempt
  already, before the job is run again.
\<close>

theorem failed_emitted_after_each_attempt:
  "fst (run_job host0 always_slipping job0 state0) =
     Exhausted (Error ''Slippage too high: 0.0120 > 0.01'')
   \<and> snd (run_job host0 always_slipping job0 state0) =
       apply_actions
         (worker_actions slip_router job0 @
          [failed_action job0 (Error ''Slippage too high: 0.0120 > 0.01''), Sleep 500] @
          worker_actions slip_router job0 @
          [failed_action job0 (Error ''Slippage too high: 0.0120 > 0.01''), Sleep 1000] @
          worker_actions slip_router job0 @
          [failed_action job0 (Error ''Slippage too high: 0.0120 > 0.01'')]) state0
   \<and> statuses (worker_actions slip_router job0) = [routing, building, submitted]
   \<and> updates_of (trace (snd (run_job host0 always_slipping job0 state0))) =
       [routing, building, submitted, failed,
        routing, building, submitted, failed,
        routing, building, submitted, failed]
   \<and> fst (run_job host0 mock_draws limit_job state0) =
       Exhausted (Error ''Unsupported order type'')
   \<and> snd (run_job host0 mock_draws limit_job state0) =
       apply_actions
         (worker_actions mock_first limit_job @
          [failed_action limit_job (Error ''Unsupported order type''), Sleep 500] @
          worker_actions mock_later limit_job @
          [failed_action limit_job (Error ''Unsupported order type''), Sleep 1000] @
          worker_actions mock_later limit_job @
          [failed_action limit_job (Error ''Unsupported order type'')]) state0
   \<and> statuses (worker_actions mock_first limit_job) = [routing, building]
   \<and> statuses (worker_actions mock_later limit_job) = [routing, building]
   \<and> updates_of (trace (snd (run_job host0 mock_draws limit_job state0))) =
       [routing, building, failed, routing, building, failed, routing, building, failed]"
proof -
  have w: "worker_result host0 (always_slipping n) job0 =
      Inl (Error ''Slippage too high: 0.0120 > 0.01'')" for n
    by (simp add: always_slipping_def worker_result_slip)
  have a: "fst (run_job host0 always_slipping job0 state0) =
     Exhausted (Error ''Slippage too high: 0.0120 > 0.01'')"
    by (rule run_job_exhausted [OF w w w])
  have b: "snd (run_job host0 always_slipping job0 state0) =
       apply_actions
         (worker_actions slip_router job0 @
          [failed_action job0 (Error ''Slippage too high: 0.0120 > 0.01''), Sleep 500] @
          worker_actions slip_router job0 @
          [failed_action job0 (Error ''Slippage too high: 0.0120 > 0.01''), Sleep 1000] @
          worker_actions slip_router job0 @
          [failed_action job0 (Error ''Slippage too high: 0.0120 > 0.01'')]) state0"
    by (simp only: run_job_actions job_actions_exhausted [OF w w w] always_slipping_def)
  have c: "statuses (worker_actions slip_router job0) = [routing, building, submitted]"
    by (simp add: statuses_worker_actions slippage_unit job0_fields)
  have d: "updates_of (trace (snd (run_job host0 always_slipping job0 state0))) =
       [routing, building, submitted, failed,
        routing, building, submitted, failed,
        routing, building, submitted, failed]"
    unfolding b updates_of_apply_actions state0_trace
    by (simp add: statuses_append c failed_action_def)
  have e: "fst (run_job host0 mock_draws limit_job state0) =
       Exhausted (Error ''Unsupported order type'')"
    by (rule run_job_exhausted [OF worker_result_limit worker_result_limit worker_result_limit])
  have f: "snd (run_job host0 mock_draws limit_job state0) =
       apply_actions
         (worker_actions mock_first limit_job @
          [failed_action limit_job (Error ''Unsupported order type''), Sleep 500] @
          worker_actions mock_later limit_job @
          [failed_action limit_job (Error ''Unsupported order type''), Sleep 1000] @
          worker_actions mock_later limit_job @
          [failed_action limit_job (Error ''Unsupported order type'')]) state0"
    by (simp only: run_job_actions job_actions_limit)
  have g: "statuses (worker_actions mock_first limit_job) = [routing, building]"
    "statuses (worker_actions mock_later limit_job) = [routing, building]"
    by (simp_all add: statuses_worker_actions limit_job_fields)
  have i: "updates_of (trace (snd (run_job host0 mock_draws limit_job state0))) =
       [routing, building, failed, routing, building, failed, routing, building, failed]"
    by (simp only: run_job_actions updates_of_apply_actions state0_trace statuses_limit
        append_Nil)
  from a b c d e f g i show ?thesis by blast
qed

text \<open>
  A state operation that supplies no settlement id and no realized price leaves both
  columns of every row as they are, and no operation adds or removes a row. Among the
  operations of a job only the last one can supply them, and the \<open>pending\<close> of the
  endpoint supplies none.
\<close>

lemma apply_action_keeps_settlement:
  assumes "\<not> sets_settlement a" and "ledger s k = Some r"
  shows "\<exists>r'. ledger (apply_action a s) k = Some r' \<and> tx_hash r' = tx_hash r \<and>
           executed_price r' = executed_price r"
  using assms
  by (cases a) (auto simp: emitStatus_row COALESCE_def str_or_null_def num_or_null_def)

lemma apply_actions_keep_settlement:
  assumes "list_all (\<lambda>a. \<not> sets_settlement a) as" and "ledger s k = Some r"
  shows "\<exists>r'. ledger (apply_actions as s) k = Some r' \<and> tx_hash r' = tx_hash r \<and>
           executed_price r' = executed_price r"
  using assms
proof (induction as arbitrary: s r)
  case Nil
  then show ?case by simp
next
  case (Cons a as)
  from Cons.prems have na: "\<not> sets_settlement a" and nas: "list_all (\<lambda>a. \<not> sets_settlement a) as"
    by simp_all
  from apply_action_keeps_settlement [OF na Cons.prems(2)] obtain r1 where
    r1: "ledger (apply_action a s) k = Some r1" "tx_hash r1 = tx_hash r"
      "executed_price r1 = executed_price r"
    by blast
  from Cons.IH [OF nas r1(1)] r1 show ?case
    by auto
qed

lemma apply_actions_row_exists:
  "ledger (apply_actions as s) k = None \<longleftrightarrow> ledger s k = None"
  by (induction as arbitrary: s) (simp_all add: ledger_apply_action_other)

lemma worker_actions_nonempty: "worker_actions rt job \<noteq> []"
  by (simp add: worker_actions_def)

lemma job_actions_nonempty: "job_actions h left made rts job \<noteq> []"
  by (cases left) (simp_all add: worker_actions_nonempty)

lemma worker_actions_failing:
  "worker_result h rt job = Inl e \<Longrightarrow> list_all (\<lambda>a. \<not> sets_settlement a) (worker_actions rt job)"
  by (auto simp: worker_actions_def worker_result_def no_extra_def split: if_splits)

lemma worker_actions_butlast:
  "list_all (\<lambda>a. \<not> sets_settlement a) (butlast (worker_actions rt job))"
  by (simp add: worker_actions_def no_extra_def)

lemma failed_action_no_settlement: "\<not> sets_settlement (failed_action job e)"
  by (simp add: failed_action_def no_extra_def)

lemma job_actions_butlast:
  "list_all (\<lambda>a. \<not> sets_settlement a) (butlast (job_actions h left made rts job))"
proof (induction left arbitrary: made)
  case 0
  show ?case
    by (cases "worker_result h (rts made) job")
      (simp_all add: butlast_append worker_actions_failing worker_actions_butlast)
next
  case (Suc left)
  show ?case
  proof (cases "worker_result h (rts made) job")
    case (Inl e)
    then show ?thesis
      by (simp add: butlast_append worker_actions_failing failed_action_no_settlement
          job_actions_nonempty Suc.IH)
  next
    case (Inr ret)
    then show ?thesis
      by (simp add: worker_actions_butlast)
  qed
qed

lemma job_actions_one_settlement:
  "length (filter sets_settlement (job_actions h left made rts job)) \<le> 1"
proof -
  let ?as = "job_actions h left made rts job"
  have "?as = butlast ?as @ [last ?as]"
    by (simp add: job_actions_nonempty)
  then have "filter sets_settlement ?as =
      filter sets_settlement (butlast ?as) @ filter sets_settlement [last ?as]"
    by (metis filter_append)
  moreover have "filter sets_settlement (butlast ?as) = []"
    using job_actions_butlast [of h left made rts job]
    by (simp add: filter_empty_conv list_all_iff)
  ultimately show ?thesis
    by simp
qed

lemma with_pending_one_settlement:
  "length (filter sets_settlement (with_pending n oid (job_actions h left made rts job))) \<le> 1"
proof -
  have "filter sets_settlement (with_pending n oid (job_actions h left made rts job)) =
      filter sets_settlement (take n (job_actions h left made rts job)) @
      filter sets_settlement (drop n (job_actions h left made rts job))"
    by (simp add: with_pending_def no_extra_def)
  also have "\<dots> =
      filter sets_settlement
        (take n (job_actions h left made rts job) @ drop n (job_actions h left made rts job))"
    by (simp only: filter_append)
  finally show ?thesis
    by (simp only: append_take_drop_id job_actions_one_settlement)
qed

lemma settled_kept:
  assumes one: "length (filter sets_settlement as) \<le> 1"
    and row: "ledger s k = Some r0"
    and none: "tx_hash r0 = None" "executed_price r0 = None"
    and le: "i \<le> j"
  shows "\<exists>ri rj.
      ledger (apply_actions (take i as) s) k = Some ri \<and>
      ledger (apply_actions (take j as) s) k = Some rj \<and>
      (tx_hash ri \<noteq> None \<longrightarrow> tx_hash rj = tx_hash ri) \<and>
      (executed_price ri \<noteq> None \<longrightarrow> executed_price rj = executed_price ri)"
proof -
  obtain ri where ri: "ledger (apply_actions (take i as) s) k = Some ri"
    using apply_actions_row_exists [of "take i as" s k] row by fastforce
  obtain rj where rj: "ledger (apply_actions (take j as) s) k = Some rj"
    using apply_actions_row_exists [of "take j as" s k] row by fastforce
  have split: "take j as = take i as @ take (j - i) (drop i as)"
    using le take_add [of i "j - i" as] by simp
  have keep: "(tx_hash ri \<noteq> None \<longrightarrow> tx_hash rj = tx_hash ri) \<and>
      (executed_price ri \<noteq> None \<longrightarrow> executed_price rj = executed_price ri)"
  proof (cases "filter sets_settlement (take i as) = []")
    case True
    then have "list_all (\<lambda>a. \<not> sets_settlement a) (take i as)"
      by (simp add: filter_empty_conv list_all_iff)
    from apply_actions_keep_settlement [OF this row] ri
    have "tx_hash ri = tx_hash r0" "executed_price ri = executed_price r0"
      by auto
    with none show ?thesis by simp
  next
    case False
    have "filter sets_settlement as =
        filter sets_settlement (take i as) @ filter sets_settlement (drop i as)"
      by (metis append_take_drop_id filter_append)
    with one False have "filter sets_settlement (drop i as) = []"
      by (cases "filter sets_settlement (take i as)") auto
    then have "list_all (\<lambda>a. \<not> sets_settlement a) (drop i as)"
      by (simp add: filter_empty_conv list_all_iff)
    then have "list_all (\<lambda>a. \<not> sets_settlement a) (take (j - i) (drop i as))"
      by (auto simp: list_all_iff dest: in_set_takeD)
    from apply_actions_keep_settlement [OF this ri]
    obtain r' where "ledger (apply_actions (take (j - i) (drop i as))
          (apply_actions (take i as) s)) k = Some r'"
      "tx_hash r' = tx_hash ri" "executed_price r' = executed_price ri"
      by blast
    with rj show ?thesis
      by (simp add: split apply_actions_append)
  qed
  from ri rj keep show ?thesis by blast
qed

lemma worker_actions_one_venue:
  "Emit oid st ex \<in> set (worker_actions rt job) \<Longrightarrow>
     x_dex ex = None \<or> x_dex ex = Some (chosenDex rt job)"
  by (auto simp: worker_actions_def no_extra_def confirmed_extra_def split: if_splits)

text \<open>
  C6 (amended): let an order's row hold no settlement id and no realized price when its
  job starts. The transitions applied to the order are the state operations of the job,
  over all its attempts, and the \<open>pending\<close> of the endpoint, which lands after any number
  \<open>n\<close> of them. At any two points \<open>i \<le> j\<close> of this sequence, a settlement id or
  realized price that the row holds at point \<open>i\<close> is still its value at point \<open>j\<close>.
  Within one attempt every transition that carries a venue carries the same one, the
  venue that the attempt chose.
\<close>

theorem settlement_written_once:
  assumes "ledger s (orderId job) = Some r0"
    and "tx_hash r0 = None" and "executed_price r0 = None"
    and "i \<le> j"
  shows "snd (run_job h rts job s) = apply_actions (job_actions h (attempts - 1) 0 rts job) s
    \<and> (\<exists>ri rj.
          ledger (apply_actions
                    (take i (with_pending n (orderId job)
                               (job_actions h (attempts - 1) 0 rts job))) s) (orderId job) =
            Some ri \<and>
          ledger (apply_actions
                    (take j (with_pending n (orderId job)
                               (job_actions h (attempts - 1) 0 rts job))) s) (orderId job) =
            Some rj \<and>
          (tx_hash ri \<noteq> None \<longrightarrow> tx_hash rj = tx_hash ri) \<and>
          (executed_price ri \<noteq> None \<longrightarrow> executed_price rj = executed_price ri))
    \<and> (\<forall>rt oid st ex. Emit oid st ex \<in> set (worker_actions rt job) \<longrightarrow>
          x_dex ex = None \<or> x_dex ex = Some (chosenDex rt job))"
proof -
  have link: "snd (run_job h rts job s) = apply_actions (job_actions h (attempts - 1) 0 rts job) s"
    by (simp add: run_job_def attempt_loop_actions)
  note k = settled_kept [OF with_pending_one_settlement assms, of n "orderId job" h
      "attempts - 1" 0 rts job]
  from link k worker_actions_one_venue show ?thesis
    by blast
qed

lemma state0_row: "ledger state0 (orderId job0) = Some row0"
  by (simp add: state0_def job0_fields)

lemma row0_fields: "tx_hash row0 = None" "executed_price row0 = None"
  by (simp_all add: row0_def)

lemma confirmed_row:
  assumes "ledger s (orderId job) = Some r" and "worker_result h rt job = Inr ret"
    and "ret_txHash ret \<noteq> []" and "\<not> falsy (ret_executedPrice ret)"
  shows "\<exists>r'. ledger (apply_actions (worker_actions rt job) s) (orderId job) = Some r' \<and>
           dex r' = Some (ret_dex ret) \<and> tx_hash r' = Some (ret_txHash ret) \<and>
           executed_price r' = Some (ret_executedPrice ret) \<and> status r' = confirmed"
  using assms
  by (auto simp: worker_actions_def worker_result_def emitStatus_row COALESCE_def no_extra_def
      confirmed_extra_def str_or_null_def num_or_null_def split: if_splits)

lemma job_actions_mock_job0:
  "job_actions host0 (attempts - 1) 0 mock_draws job0 = worker_actions mock_first job0"
  by (simp add: attempts_pred mock_draws_simps worker_result_mock_first)

lemma length_worker_actions_mock: "length (worker_actions mock_first job0) = 6"
  using worker_result_mock_first
  by (auto simp: worker_actions_def worker_result_def job0_fields split: if_splits)

lemma with_pending_mock_job0:
  "take 6 (with_pending 6 ''o1'' (job_actions host0 (attempts - 1) 0 mock_draws job0)) =
     worker_actions mock_first job0"
  "take 7 (with_pending 6 ''o1'' (job_actions host0 (attempts - 1) 0 mock_draws job0)) =
     worker_actions mock_first job0 @ [Emit ''o1'' pending no_extra]"
  unfolding job_actions_mock_job0
  by (simp_all add: with_pending_def length_worker_actions_mock)

text \<open>
  The witness runs a market order with the router of the repository; its first attempt
  returns. The \<open>pending\<close> of the endpoint lands after the \<open>confirmed\<close> of the worker: at
  point 6 the row holds the settlement id and the realized price of the attempt, and
  after the \<open>pending\<close> transition, at point 7, it still does.
\<close>

theorem settlement_written_once_witness:
  "ledger state0 (orderId job0) = Some row0
   \<and> tx_hash row0 = None \<and> executed_price row0 = None
   \<and> (6 :: nat) \<le> 7
   \<and> take 7 (with_pending 6 (orderId job0) (job_actions host0 (attempts - 1) 0 mock_draws job0)) =
       worker_actions mock_first job0 @ [Emit ''o1'' pending no_extra]
   \<and> (\<exists>ri rj.
        ledger (apply_actions (worker_actions mock_first job0) state0) ''o1'' = Some ri \<and>
        status ri = confirmed \<and>
        tx_hash ri = Some ''0x123e4567e89b12d3a456426614174000'' \<and>
        executed_price ri = Some (Finite (3805541685128069 / 2251799813685248)) \<and>
        ledger (apply_actions (worker_actions mock_first job0 @ [Emit ''o1'' pending no_extra])
                  state0) ''o1'' = Some rj \<and>
        status rj = pending \<and>
        tx_hash rj = Some ''0x123e4567e89b12d3a456426614174000'' \<and>
        executed_price rj = Some (Finite (3805541685128069 / 2251799813685248)))"
proof -
  have le: "(6 :: nat) \<le> 7"
    by simp
  note t = settlement_written_once [OF state0_row row0_fields le,
      where h = host0 and rts = mock_draws and n = 6]
  from t have "\<exists>ri rj.
      ledger (apply_actions
                (take 6 (with_pending 6 (orderId job0)
                           (job_actions host0 (attempts - 1) 0 mock_draws job0))) state0)
        (orderId job0) = Some ri \<and>
      ledger (apply_actions
                (take 7 (with_pending 6 (orderId job0)
                           (job_actions host0 (attempts - 1) 0 mock_draws job0))) state0)
        (orderId job0) = Some rj \<and>
      (tx_hash ri \<noteq> None \<longrightarrow> tx_hash rj = tx_hash ri) \<and>
      (executed_price ri \<noteq> None \<longrightarrow> executed_price rj = executed_price ri)"
    by blast
  then have "\<exists>ri rj.
      ledger (apply_actions (worker_actions mock_first job0) state0) ''o1'' = Some ri \<and>
      ledger (apply_actions (worker_actions mock_first job0 @ [Emit ''o1'' pending no_extra])
                state0) ''o1'' = Some rj \<and>
      (tx_hash ri \<noteq> None \<longrightarrow> tx_hash rj = tx_hash ri) \<and>
      (executed_price ri \<noteq> None \<longrightarrow> executed_price rj = executed_price ri)"
    by (simp only: job0_fields with_pending_mock_job0)
  then obtain ri rj where
    ri: "ledger (apply_actions (worker_actions mock_first job0) state0) ''o1'' = Some ri" and
    rj: "ledger (apply_actions (worker_actions mock_first job0 @ [Emit ''o1'' pending no_extra])
                  state0) ''o1'' = Some rj" and
    keep: "tx_hash ri \<noteq> None \<longrightarrow> tx_hash rj = tx_hash ri"
      "executed_price ri \<noteq> None \<longrightarrow> executed_price rj = executed_price ri"
    by blast
  from confirmed_row [OF state0_row worker_result_mock_first] ri
  have c: "status ri = confirmed" "tx_hash ri = Some ''0x123e4567e89b12d3a456426614174000''"
    "executed_price ri = Some (Finite (3805541685128069 / 2251799813685248))"
    by (auto simp: job0_fields falsy_def is_zero_def)
  from rj ri have p: "status rj = pending"
    by (auto simp: apply_actions_append emitStatus_row)
  have w: "take 7 (with_pending 6 (orderId job0)
        (job_actions host0 (attempts - 1) 0 mock_draws job0)) =
      worker_actions mock_first job0 @ [Emit ''o1'' pending no_extra]"
    by (simp only: job0_fields with_pending_mock_job0)
  from state0_row row0_fields le w ri rj keep c p show ?thesis
    by auto
qed

text \<open>
  C6 as stated fails for the venue: an order of type \<open>limit\<close> is run with the router of
  the repository. The first attempt routes to Raydium and throws; the retried attempt
  draws other quotes and routes to Meteora, and its \<open>building\<close> transition replaces the
  venue in the row.
\<close>

theorem venue_overwritten_on_retry_counterexample:
  "dex (the (ledger (snd (worker host0 (mock_draws 0) limit_job state0)) ''o1'')) = Some raydium
   \<and> snd (run_job host0 mock_draws limit_job state0) =
       snd (attempt_loop host0 (Suc 0) (Suc 0) mock_draws limit_job
             (sleep 500
               (on_failed (Some limit_job) (Error ''Unsupported order type'')
                 (snd (worker host0 (mock_draws 0) limit_job state0)))))
   \<and> dex (the (ledger (snd (worker host0 (mock_draws (Suc 0)) limit_job
               (sleep 500
                 (on_failed (Some limit_job) (Error ''Unsupported order type'')
                   (snd (worker host0 (mock_draws 0) limit_job state0))))))
             ''o1'')) = Some meteora
   \<and> dex (the (ledger (snd (run_job host0 mock_draws limit_job state0)) ''o1'')) = Some meteora"
proof -
  have l: "ledger state0 (orderId limit_job) = Some row0"
    by (simp add: state0_def limit_job_fields)
  have cd: "chosenDex mock_first limit_job = raydium" "chosenDex mock_later limit_job = meteora"
    by (rule mock_choice [OF limit_job_fields(3,4)])+
  from worker_actions_dex_row [OF l, of mock_first]
  have a: "dex (the (ledger (snd (worker host0 (mock_draws 0) limit_job state0)) ''o1'')) =
      Some raydium"
    by (auto simp: worker_split mock_draws_simps cd limit_job_fields)
  have b: "snd (run_job host0 mock_draws limit_job state0) =
       snd (attempt_loop host0 (Suc 0) (Suc 0) mock_draws limit_job
             (sleep 500
               (on_failed (Some limit_job) (Error ''Unsupported order type'')
                 (snd (worker host0 (mock_draws 0) limit_job state0)))))"
    by (simp add: run_job_def attempts_pred worker_split worker_result_limit backoff_delay_def)
  let ?pre = "worker_actions mock_first limit_job @
     [failed_action limit_job (Error ''Unsupported order type''), Sleep 500]"
  let ?mid = "?pre @ worker_actions mock_later limit_job @
     [failed_action limit_job (Error ''Unsupported order type''), Sleep 1000]"
  obtain r1 where r1: "ledger (apply_actions ?pre state0) (orderId limit_job) = Some r1"
    using apply_actions_row_exists [of ?pre state0 "orderId limit_job"] l by fastforce
  from worker_actions_dex_row [OF r1, of mock_later]
  have "dex (the (ledger (apply_actions (worker_actions mock_later limit_job)
               (apply_actions ?pre state0)) ''o1'')) = Some meteora"
    by (auto simp: cd limit_job_fields)
  then have c: "dex (the (ledger (snd (worker host0 (mock_draws (Suc 0)) limit_job
               (sleep 500
                 (on_failed (Some limit_job) (Error ''Unsupported order type'')
                   (snd (worker host0 (mock_draws 0) limit_job state0))))))
             ''o1'')) = Some meteora"
    by (simp add: worker_split mock_draws_simps on_failed_action apply_actions_append)
  obtain r2 where r2: "ledger (apply_actions ?mid state0) (orderId limit_job) = Some r2"
    using apply_actions_row_exists [of ?mid state0 "orderId limit_job"] l by fastforce
  from worker_actions_dex_row [OF r2, of mock_later] obtain r3 where
    r3: "ledger (apply_actions (worker_actions mock_later limit_job)
            (apply_actions ?mid state0)) (orderId limit_job) = Some r3"
      "dex r3 = Some meteora"
    by (auto simp: cd)
  have "ledger (apply_action (failed_action limit_job (Error ''Unsupported order type''))
          (apply_actions (worker_actions mock_later limit_job) (apply_actions ?mid state0)))
        ''o1'' = Some (r3\<lparr>status := failed, error := Some ''Unsupported order type'',
           updated_at := clock (apply_actions (worker_actions mock_later limit_job)
             (apply_actions ?mid state0))\<rparr>)"
    using r3(1)
    by (simp add: failed_action_def emitStatus_row limit_job_fields COALESCE_def no_extra_def
        str_or_null_def num_or_null_def)
  then have d: "dex (the (ledger (snd (run_job host0 mock_draws limit_job state0)) ''o1'')) =
      Some meteora"
    using r3(2)
    unfolding run_job_actions job_actions_limit
    by (simp add: apply_actions_append)
  from a b c d show ?thesis by blast
qed

end
